theory Spec2Isabelle
  imports Main "HOL-Library.Word"
begin

section \<open>Strings of the page\<close>

text \<open>
  A JavaScript string is a sequence of UTF-16 code units; \<open>length\<close> counts code units,
  as \<^verbatim>\<open>String.prototype.length\<close> does. An empty string is falsy, every other string
  is truthy. ASCII literals of the source are written with \<open>js\<close>.
\<close>

type_synonym jschar = "16 word"
type_synonym jsstring = "jschar list"

definition js :: "string \<Rightarrow> jsstring" where
  "js cs = map (\<lambda>c. of_nat (of_char c)) cs"

text \<open>
  \<^verbatim>\<open>String.prototype.trim\<close> removes the white space and line terminator code units of
  ECMAScript from both ends.
\<close>

definition isWhiteSpace :: "jschar \<Rightarrow> bool" where
  "isWhiteSpace c =
     (c \<in> set [0x9, 0xA, 0xB, 0xC, 0xD, 0x20, 0xA0, 0x1680, 0x2028, 0x2029, 0x202F, 0x205F,
                0x3000, 0xFEFF]
      \<or> (0x2000 \<le> c \<and> c \<le> 0x200A))"

definition trim :: "jsstring \<Rightarrow> jsstring" where
  "trim s = rev (dropWhile isWhiteSpace (rev (dropWhile isWhiteSpace s)))"

text \<open>
  \<^verbatim>\<open>btoa\<close> of the browser: it throws \<^verbatim>\<open>InvalidCharacterError\<close> when a code unit is
  above U+00FF, and otherwise encodes the code units, read as bytes, in base64 with
  \<open>=\<close> padding. The other exception of the page is the \<^verbatim>\<open>TypeError\<close> of a property read
  on \<^verbatim>\<open>null\<close> or \<^verbatim>\<open>undefined\<close>.
\<close>

datatype js_error = InvalidCharacterError | TypeError

definition b64alpha :: "nat \<Rightarrow> jschar" where
  "b64alpha i =
     of_nat (if i < 26 then 65 + i else if i < 52 then 71 + i else if i < 62 then i - 4
             else if i = 62 then 43 else 47)"

fun base64 :: "nat list \<Rightarrow> jsstring" where
  "base64 [] = []"
| "base64 [a] = [b64alpha (a div 4), b64alpha ((a mod 4) * 16), 61, 61]"
| "base64 [a, b] =
     [b64alpha (a div 4), b64alpha ((a mod 4) * 16 + b div 16), b64alpha ((b mod 16) * 4), 61]"
| "base64 (a # b # c # bs) =
     b64alpha (a div 4) # b64alpha ((a mod 4) * 16 + b div 16)
       # b64alpha ((b mod 16) * 4 + c div 64) # b64alpha (c mod 64) # base64 bs"

definition btoa :: "jsstring \<Rightarrow> js_error + jsstring" where
  "btoa s = (if list_ex (\<lambda>c. 0xFF < c) s then Inl InvalidCharacterError
             else Inr (base64 (map unat s)))"

text \<open>\<^verbatim>\<open>getCacheKey(query)\<close>: the prefix \<open>github_search_\<close> before \<^verbatim>\<open>btoa(query)\<close>.\<close>

definition getCacheKey :: "jsstring \<Rightarrow> js_error + jsstring" where
  "getCacheKey query =
     (case btoa query of Inl e \<Rightarrow> Inl e | Inr b \<Rightarrow> Inr (js ''github_search_'' @ b))"


section \<open>Query builder\<close>

text \<open>
  \<^verbatim>\<open>buildSearchQuery(language, searchTerm)\<close>: the three branches of the source in
  their order, then the popularity floor appended unconditionally.
\<close>

definition buildSearchQuery :: "jsstring \<Rightarrow> jsstring \<Rightarrow> jsstring" where
  "buildSearchQuery language searchTerm =
     (if searchTerm \<noteq> [] \<and> language \<noteq> [] then searchTerm @ js '' language:'' @ language
      else if language \<noteq> [] then js ''language:'' @ language
      else searchTerm) @ js '' stars:>10''"

section \<open>The searcher and its page\<close>

text \<open>
  An item of a response, with the fields whose absence makes the card renderer throw:
  \<^verbatim>\<open>createRepositoryCard\<close> reads \<^verbatim>\<open>repo.owner.login\<close>, and \<^verbatim>\<open>formatNumber\<close> calls
  \<^verbatim>\<open>toLocaleString\<close> on each of the three counts, so an item whose owner or whose count
  is \<^verbatim>\<open>null\<close> or missing (\<open>None\<close> here) ends the rendering with a \<^verbatim>\<open>TypeError\<close>. The
  description, the language, the license and the date are read behind defaults and
  cannot throw; they are left out. An array element that is not an object renders like
  an item without owner.
\<close>

record repo =
  repo_name :: jsstring
  html_url :: jsstring
  owner :: "jsstring option"
  stargazers_count :: "nat option"
  forks_count :: "nat option"
  open_issues_count :: "nat option"

definition rendersCard :: "repo \<Rightarrow> bool" where
  "rendersCard r =
     (owner r \<noteq> None \<and> stargazers_count r \<noteq> None \<and> forks_count r \<noteq> None
      \<and> open_issues_count r \<noteq> None)"

text \<open>
  The body of a successful response, a JSON object as \<^verbatim>\<open>response.json()\<close> delivers it:
  the orchestration reads \<^verbatim>\<open>total_count\<close> and \<^verbatim>\<open>items\<close>. \<open>items\<close> is \<open>None\<close> when the field
  is missing or falsy, \<open>total_count\<close> is \<open>None\<close> when the field is \<^verbatim>\<open>null\<close> or missing.
\<close>

record search_data =
  total_count :: "nat option"
  items :: "repo list option"

text \<open>An entry of \<^verbatim>\<open>this.cache\<close>: \<^verbatim>\<open>{ data, timestamp }\<close>, the time in milliseconds.\<close>

record cached =
  data :: search_data
  timestamp :: int

text \<open>
  How the network call of one \<^verbatim>\<open>searchRepositories\<close> settles when it is not aborted:
  a response with \<^verbatim>\<open>ok\<close> and a parsed body, a response that is not \<^verbatim>\<open>ok\<close> (status
  and status text), or a rejection of \<^verbatim>\<open>fetch\<close> or \<^verbatim>\<open>response.json()\<close> with a message.
\<close>

datatype response =
    RespOk search_data
  | RespNotOk nat jsstring
  | RespFailed jsstring

text \<open>
  The status banner: \<^verbatim>\<open>showStatus(type, message)\<close> sets the class to the type and the
  content to the message. The messages of the source are constructors here: the
  validation text of the form, the prompt to begin, the spinner text, the count of
  repositories found, the text for no match, and the error text with its retry button
  (the message of the error that reached the \<^verbatim>\<open>catch\<close>).
\<close>

datatype stype = StEmpty | StLoading | StError | StSuccess

datatype errtext = HttpStatus nat jsstring | Failure jsstring | Thrown js_error

datatype message =
    MsgNone
  | PleaseSelect
  | SelectToBegin
  | Searching
  | Found nat
  | NoneFound
  | ErrorRetry errtext

text \<open>
  A call of \<^verbatim>\<open>searchRepositories\<close> suspended at its \<^verbatim>\<open>await\<close>: its local \<^verbatim>\<open>query\<close> and
  \<^verbatim>\<open>cacheKey\<close>, and the signal of the controller it created (the controller is
  identified with the call, \<open>aborted\<close> is the state of its signal).
\<close>

record task =
  tid :: nat
  query :: jsstring
  cacheKey :: jsstring
  aborted :: bool

text \<open>
  The fields of \<^verbatim>\<open>GitHubRepositorySearcher\<close>, the elements of the page it reads and
  writes, and the event loop around it: the suspended calls, the queries handed to
  \<^verbatim>\<open>fetch\<close> so far, and the errors nobody catches (rejections of calls nobody awaits,
  exceptions that leave an event listener). \<open>searchTimeout\<close> is the
  armed debounce timer with the arguments its callback captured; \<open>abortController\<close>
  names the call whose controller the field holds.
\<close>

record searcher =
  searchTimeout :: "(jsstring \<times> jsstring) option"
  currentResults :: "repo list"
  isLoading :: bool
  cache :: "jsstring \<rightharpoonup> cached"
  abortController :: "nat option"
  languageSelect :: jsstring
  searchTermInput :: jsstring
  statusClass :: "stype option"
  statusHtml :: message
  resultsDiv :: "repo list"
  refreshHidden :: bool
  tasks :: "task list"
  nextId :: nat
  fetchLog :: "jsstring list"
  unhandled :: "js_error list"

definition CACHE_DURATION :: int where
  "CACHE_DURATION = 5 * 60 * 1000"

text \<open>
  The constructor: no timer, no results, not loading, an empty cache, no controller;
  \<^verbatim>\<open>loadFromLocalStorage\<close> puts the saved preferences into the two inputs, which are
  empty without them. The markup of the page is not part of the class: the banner is
  taken to start without a type and the refresh button hidden.
\<close>

definition constructor :: "jsstring \<Rightarrow> jsstring \<Rightarrow> searcher" where
  "constructor language searchTerm =
     \<lparr> searchTimeout = None, currentResults = [], isLoading = False, cache = Map.empty,
       abortController = None, languageSelect = language, searchTermInput = searchTerm,
       statusClass = None, statusHtml = MsgNone, resultsDiv = [], refreshHidden = True,
       tasks = [], nextId = 0, fetchLog = [], unhandled = [] \<rparr>"

definition showStatus :: "stype \<Rightarrow> message \<Rightarrow> searcher \<Rightarrow> searcher" where
  "showStatus ty msg s = s\<lparr>statusClass := Some ty, statusHtml := msg\<rparr>"

definition clearResults :: "searcher \<Rightarrow> searcher" where
  "clearResults s = s\<lparr>resultsDiv := [], refreshHidden := True\<rparr>"

text \<open>
  \<^verbatim>\<open>displayResults\<close> builds one card for each repository, in order, and only then
  replaces the content of the results element by the cards: when a card cannot be
  built, it throws and the element is not touched. The page keeps the repositories
  rendered.
\<close>

definition displayResults :: "repo list \<Rightarrow> searcher \<Rightarrow> js_error + searcher" where
  "displayResults repositories s =
     (if list_all rendersCard repositories then Inr (s\<lparr>resultsDiv := repositories\<rparr>)
      else Inl TypeError)"

text \<open>
  \<^verbatim>\<open>handleSearchSuccess(data)\<close>, with the state it leaves and the error it throws, if
  any. In the branch for a non-empty item list the retained items are assigned first;
  the rendering and then the text of the banner (\<^verbatim>\<open>data.total_count.toLocaleString()\<close>)
  can throw after that.
\<close>

definition handleSearchSuccess :: "search_data \<Rightarrow> searcher \<Rightarrow> searcher \<times> js_error option" where
  "handleSearchSuccess d s =
     (case items d of
        Some xs \<Rightarrow>
          if length xs > 0
          then (let s1 = s\<lparr>currentResults := xs\<rparr>
                in case displayResults xs s1 of
                     Inl e \<Rightarrow> (s1, Some e)
                   | Inr s2 \<Rightarrow>
                       (case total_count d of
                          None \<Rightarrow> (s2, Some TypeError)
                        | Some n \<Rightarrow>
                            ((showStatus StSuccess (Found n) s2)\<lparr>refreshHidden := False\<rparr>, None)))
          else (showStatus StEmpty NoneFound s, None)
      | None \<Rightarrow> (showStatus StEmpty NoneFound s, None))"

text \<open>
  Where an error thrown by \<^verbatim>\<open>handleSearchSuccess\<close> ends. Outside the \<^verbatim>\<open>try\<close> it leaves
  the call as a rejection nobody handles; inside, the \<^verbatim>\<open>catch\<close> block shows the error
  banner with the message of the error.
\<close>

fun rejects :: "searcher \<times> js_error option \<Rightarrow> searcher" where
  "rejects (s, None) = s"
| "rejects (s, Some e) = s\<lparr>unhandled := unhandled s @ [e]\<rparr>"

fun catches :: "searcher \<times> js_error option \<Rightarrow> searcher" where
  "catches (s, None) = s"
| "catches (s, Some e) = showStatus StError (ErrorRetry (Thrown e)) s"

text \<open>\<^verbatim>\<open>abortController.abort()\<close>: the signal of that controller becomes aborted.\<close>

definition abort :: "nat \<Rightarrow> task list \<Rightarrow> task list" where
  "abort c ts = map (\<lambda>t. if tid t = c then t\<lparr>aborted := True\<rparr> else t) ts"

text \<open>
  The first statement of \<^verbatim>\<open>searchRepositories\<close>: when \<^verbatim>\<open>isLoading\<close> is set and a
  controller is held, that controller is aborted.
\<close>

definition abortOutstanding :: "searcher \<Rightarrow> searcher" where
  "abortOutstanding s =
     (if isLoading s
      then (case abortController s of
              Some c \<Rightarrow> s\<lparr>tasks := abort c (tasks s)\<rparr>
            | None \<Rightarrow> s)
      else s)"

text \<open>
  \<^verbatim>\<open>searchRepositories\<close> from the cache miss to its \<^verbatim>\<open>await\<close>: the flag, a new controller,
  the loading banner, the cleared results, the hidden button, and the call of \<^verbatim>\<open>fetch\<close>
  with the signal of the new controller.
\<close>

definition beginFetch :: "jsstring \<Rightarrow> jsstring \<Rightarrow> searcher \<Rightarrow> searcher" where
  "beginFetch q key s =
     (let c = nextId s;
          s1 = s\<lparr>isLoading := True, abortController := Some c, nextId := Suc c\<rparr>;
          s2 = (clearResults (showStatus StLoading Searching s1))\<lparr>refreshHidden := True\<rparr>
      in s2\<lparr>tasks := tasks s2 @ [\<lparr>tid = c, query = q, cacheKey = key, aborted = False\<rparr>],
             fetchLog := fetchLog s2 @ [q]\<rparr>)"

text \<open>
  \<^verbatim>\<open>searchRepositories(language, searchTerm)\<close> up to its \<^verbatim>\<open>await\<close>, at the time \<open>now\<close> of
  \<^verbatim>\<open>Date.now()\<close>. \<^verbatim>\<open>getCacheKey\<close> and the \<^verbatim>\<open>handleSearchSuccess\<close> of a cache hit are
  called outside the \<^verbatim>\<open>try\<close>: when one of them throws, the call ends there with a
  rejected promise that no caller handles.
\<close>

definition searchRepositories ::
  "int \<Rightarrow> jsstring \<Rightarrow> jsstring \<Rightarrow> searcher \<Rightarrow> searcher" where
  "searchRepositories now language searchTerm s0 =
     (let s = abortOutstanding s0;
          q = buildSearchQuery language searchTerm
      in case getCacheKey q of
           Inl e \<Rightarrow> rejects (s, Some e)
         | Inr key \<Rightarrow>
             (case cache s key of
                Some cd \<Rightarrow>
                  if now - timestamp cd < CACHE_DURATION
                  then rejects (handleSearchSuccess (data cd) s)
                  else beginFetch q key s
              | None \<Rightarrow> beginFetch q key s))"

text \<open>
  The rest of \<^verbatim>\<open>searchRepositories\<close>, run when the network call of the suspended call
  \<open>t\<close> settles at time \<open>now\<close>: with an aborted signal the call rejects with
  \<^verbatim>\<open>AbortError\<close> and the \<^verbatim>\<open>catch\<close> returns; otherwise the body is cached and handed to
  \<^verbatim>\<open>handleSearchSuccess\<close>, or the error banner is shown, also for an error that
  \<^verbatim>\<open>handleSearchSuccess\<close> throws. The \<^verbatim>\<open>finally\<close> block runs in every case.
\<close>

definition settled :: "int \<Rightarrow> task \<Rightarrow> response \<Rightarrow> searcher \<Rightarrow> searcher" where
  "settled now t r s =
     (let s1 =
        (if aborted t then s
         else (case r of
                 RespOk d \<Rightarrow>
                   catches
                     (handleSearchSuccess d
                        (s\<lparr>cache := (cache s)(cacheKey t \<mapsto> \<lparr>data = d, timestamp = now\<rparr>)\<rparr>))
               | RespNotOk st tx \<Rightarrow> showStatus StError (ErrorRetry (HttpStatus st tx)) s
               | RespFailed m \<Rightarrow> showStatus StError (ErrorRetry (Failure m)) s))
      in s1\<lparr>isLoading := False, abortController := None\<rparr>)"

text \<open>
  The event loop resumes the suspended call \<open>i\<close>: it leaves the suspended calls and its
  continuation runs. Nothing happens when no such call is suspended.
\<close>

definition resume :: "int \<Rightarrow> nat \<Rightarrow> response \<Rightarrow> searcher \<Rightarrow> searcher" where
  "resume now i r s =
     (case find (\<lambda>t. tid t = i) (tasks s) of
        None \<Rightarrow> s
      | Some t \<Rightarrow> settled now t r (s\<lparr>tasks := filter (\<lambda>u. tid u \<noteq> i) (tasks s)\<rparr>))"

section \<open>Event handlers\<close>

definition handleFormSubmit :: "int \<Rightarrow> searcher \<Rightarrow> searcher" where
  "handleFormSubmit now s =
     (let language = languageSelect s; searchTerm = trim (searchTermInput s)
      in if language = [] \<and> searchTerm = [] then showStatus StEmpty PleaseSelect s
         else searchRepositories now language searchTerm s)"

text \<open>\<^verbatim>\<open>saveToLocalStorage\<close> writes the preference store only and is left out.\<close>

definition handleLanguageChange :: "int \<Rightarrow> searcher \<Rightarrow> searcher" where
  "handleLanguageChange now s =
     (let language = languageSelect s; searchTerm = trim (searchTermInput s)
      in if language \<noteq> [] then searchRepositories now language searchTerm s
         else if searchTerm = [] then clearResults (showStatus StEmpty SelectToBegin s)
         else s)"

text \<open>
  \<^verbatim>\<open>handleSearchTermInput(e)\<close>: the event's target is the term input, whose value the
  browser has already updated. \<^verbatim>\<open>clearTimeout\<close> disarms the pending timer first.
\<close>

definition handleSearchTermInput :: "searcher \<Rightarrow> searcher" where
  "handleSearchTermInput s0 =
     (let s = s0\<lparr>searchTimeout := None\<rparr>;
          language = languageSelect s; searchTerm = trim (searchTermInput s)
      in if length searchTerm \<ge> 3 \<or> language \<noteq> []
         then s\<lparr>searchTimeout := Some (language, searchTerm)\<rparr>
         else if searchTerm = [] \<and> language = []
         then clearResults (showStatus StEmpty SelectToBegin s)
         else s)"

text \<open>The armed timer fires after \<^verbatim>\<open>DEBOUNCE_DELAY\<close>: its callback runs the search.\<close>

definition timerFires :: "int \<Rightarrow> searcher \<Rightarrow> searcher" where
  "timerFires now s =
     (case searchTimeout s of
        None \<Rightarrow> s
      | Some (language, searchTerm) \<Rightarrow>
          searchRepositories now language searchTerm (s\<lparr>searchTimeout := None\<rparr>))"

definition retrySearch :: "int \<Rightarrow> searcher \<Rightarrow> searcher" where
  "retrySearch now s = searchRepositories now (languageSelect s) (trim (searchTermInput s)) s"

text \<open>
  \<^verbatim>\<open>Math.random()\<close> yields a double in the half-open interval from 0 to 1: a value
  \<open>m / 2 ^ e\<close> with \<open>m\<close> below \<open>2 ^ 53\<close> and \<open>e\<close> at least 53. The product with the length
  of the array (an integer below \<open>2 ^ 32\<close>, exact as a double) is rounded to the nearest
  double, ties to even: a numerator with more than 53 bits loses its low bits.
  \<open>excess\<close> counts those bits, \<open>roundDouble\<close> rounds the numerator, and
  \<^verbatim>\<open>Math.floor\<close> of the rounded product is the index.
\<close>

fun excess :: "nat \<Rightarrow> nat" where
  "excess n = (if n < 9007199254740992 then 0 else Suc (excess (n div 2)))"

declare excess.simps [simp del]

definition roundDouble :: "nat \<Rightarrow> nat" where
  "roundDouble n =
     (let d = excess n; q = n div 2 ^ d; r = n mod 2 ^ d
      in if d = 0 then n
         else (if 2 ^ d < 2 * r \<or> (2 * r = 2 ^ d \<and> odd q) then q + 1 else q) * 2 ^ d)"

definition randomIndex :: "nat \<times> nat \<Rightarrow> nat \<Rightarrow> nat" where
  "randomIndex r n = roundDouble (fst r * n) div 2 ^ snd r"

text \<open>
  \<^verbatim>\<open>showRandomRepository\<close>: with retained items, the item at the random index is
  rendered alone. The call runs in an event listener, where nobody catches what the
  rendering throws. An index outside the array would read \<^verbatim>\<open>undefined\<close>, which does not
  render.
\<close>

definition showRandomRepository :: "nat \<times> nat \<Rightarrow> searcher \<Rightarrow> searcher" where
  "showRandomRepository r s =
     (if length (currentResults s) > 0
      then (let i = randomIndex r (length (currentResults s))
            in if i < length (currentResults s)
               then (case displayResults [currentResults s ! i] s of
                       Inl e \<Rightarrow> rejects (s, Some e)
                     | Inr s' \<Rightarrow> s')
               else rejects (s, Some TypeError))
      else s)"

text \<open>
  The timer \<^verbatim>\<open>showStatus\<close> arms for a success banner: after three seconds a banner
  that still has the success type is emptied.
\<close>

definition statusTimeout :: "searcher \<Rightarrow> searcher" where
  "statusTimeout s =
     (if statusClass s = Some StSuccess then s\<lparr>statusHtml := MsgNone, statusClass := None\<rparr>
      else s)"

text \<open>
  Teardown (\<^verbatim>\<open>destroy\<close>) ends the life of the page and is not among its events.
  What can happen to the page, each at a time \<open>now\<close>: the form is submitted, the
  language selector or the term input changes to a new value, the debounce timer fires,
  the retry button or the refresh button (with the random draw) is clicked, Escape is
  pressed, Enter is pressed on the language selector, the network call of a suspended
  call settles, the success banner times out.
\<close>

datatype event =
    Submit
  | LanguageChange jsstring
  | TermInput jsstring
  | TimerFires
  | Retry
  | Refresh "nat \<times> nat"
  | Escape
  | EnterOnLanguage
  | Settles nat response
  | StatusTimeout

fun step :: "int \<times> event \<Rightarrow> searcher \<Rightarrow> searcher" where
  "step (now, Submit) s = handleFormSubmit now s"
| "step (now, LanguageChange v) s = handleLanguageChange now (s\<lparr>languageSelect := v\<rparr>)"
| "step (now, TermInput v) s = handleSearchTermInput (s\<lparr>searchTermInput := v\<rparr>)"
| "step (now, TimerFires) s = timerFires now s"
| "step (now, Retry) s = retrySearch now s"
| "step (now, Refresh r) s = showRandomRepository r s"
| "step (now, Escape) s = clearResults s"
| "step (now, EnterOnLanguage) s = handleLanguageChange now s"
| "step (now, Settles i r) s = resume now i r s"
| "step (now, StatusTimeout) s = statusTimeout s"

fun run :: "(int \<times> event) list \<Rightarrow> searcher \<Rightarrow> searcher" where
  "run [] s = s"
| "run (e # es) s = run es (step e s)"

text \<open>The network calls that are live: the suspended calls whose signal is not aborted.\<close>

definition inFlight :: "searcher \<Rightarrow> task list" where
  "inFlight s = filter (\<lambda>t. \<not> aborted t) (tasks s)"

text \<open>
  The identifiers of the suspended calls. Every one of them was handed out by
  \<open>nextId\<close> before, and no two suspended calls share one.
\<close>

definition tids :: "searcher \<Rightarrow> nat list" where
  "tids s = map tid (tasks s)"

definition tasksOk :: "searcher \<Rightarrow> bool" where
  "tasksOk s = (list_all (\<lambda>i. i < nextId s) (tids s) \<and> distinct (tids s))"

text \<open>Every suspended call holds the cache key of its own query.\<close>

definition keysOk :: "searcher \<Rightarrow> bool" where
  "keysOk s = list_all (\<lambda>c. getCacheKey (query c) = Inr (cacheKey c)) (tasks s)"

text \<open>
  What the cache answers for a key at the time \<open>now\<close>: an entry younger than
  \<open>CACHE_DURATION\<close>, as the test in \<^verbatim>\<open>searchRepositories\<close> has it.
\<close>

definition fresh :: "int \<Rightarrow> searcher \<Rightarrow> jsstring \<Rightarrow> cached option" where
  "fresh now s key =
     (case cache s key of
        None \<Rightarrow> None
      | Some cd \<Rightarrow> if now - timestamp cd < CACHE_DURATION then Some cd else None)"

text \<open>Whether a settled network call delivered a body.\<close>

fun isOk :: "response \<Rightarrow> bool" where
  "isOk (RespOk d) = True"
| "isOk (RespNotOk st tx) = False"
| "isOk (RespFailed m) = False"

text \<open>
  The bodies of the successful responses among the events of a run. The retained items
  and every cached body come from the bodies \<open>D\<close>.
\<close>

fun payloadOf :: "int \<times> event \<Rightarrow> search_data list" where
  "payloadOf (now, Settles i (RespOk d)) = [d]"
| "payloadOf (now, e) = []"

definition payloads :: "(int \<times> event) list \<Rightarrow> search_data list" where
  "payloads evs = concat (map payloadOf evs)"

definition keptOrReplaced :: "search_data set \<Rightarrow> searcher \<Rightarrow> searcher \<Rightarrow> bool" where
  "keptOrReplaced D s s' =
     (currentResults s' = currentResults s
      \<or> (currentResults s' \<noteq> [] \<and> (\<exists>d \<in> D. items d = Some (currentResults s'))))"

definition fromPayloads :: "search_data set \<Rightarrow> searcher \<Rightarrow> bool" where
  "fromPayloads D s =
     ((currentResults s = [] \<or> (\<exists>d \<in> D. items d = Some (currentResults s)))
      \<and> data ` ran (cache s) \<subseteq> D)"

text \<open>Repositories for concrete runs: one that renders, one whose owner is \<^verbatim>\<open>null\<close>.\<close>

definition sampleRepo :: "nat \<Rightarrow> repo" where
  "sampleRepo n =
     \<lparr> repo_name = js ''repo'', html_url = js ''https://github.com/o/repo'',
       owner = Some (js ''o''), stargazers_count = Some n, forks_count = Some 0,
       open_issues_count = Some 0 \<rparr>"

definition ownerlessRepo :: repo where
  "ownerlessRepo =
     \<lparr> repo_name = js ''repo'', html_url = js ''https://github.com/o/repo'',
       owner = None, stargazers_count = Some 11, forks_count = Some 0,
       open_issues_count = Some 0 \<rparr>"

section \<open>The suspended calls stay well identified\<close>

lemma tasksOk_same: "tids s' = tids s \<Longrightarrow> nextId s' = nextId s \<Longrightarrow> tasksOk s \<Longrightarrow> tasksOk s'"
  by (simp add: tasksOk_def)

lemma tasksOk_snoc: "tids s' = tids s @ [nextId s] \<Longrightarrow> nextId s' = Suc (nextId s) \<Longrightarrow> tasksOk s \<Longrightarrow> tasksOk s'"
  by (auto simp: tasksOk_def list_all_iff)

lemma tasksOk_filter: "tids s' = filter P (tids s) \<Longrightarrow> nextId s' = nextId s \<Longrightarrow> tasksOk s \<Longrightarrow> tasksOk s'"
  by (auto simp: tasksOk_def list_all_iff)

lemma map_tid_abort [simp]: "map tid (abort c ts) = map tid ts"
  by (induction ts) (auto simp: abort_def)

lemma abortOutstanding_frame [simp]:
  "nextId (abortOutstanding s) = nextId s"
  "tids (abortOutstanding s) = tids s"
  "cache (abortOutstanding s) = cache s"
  "fetchLog (abortOutstanding s) = fetchLog s"
  "currentResults (abortOutstanding s) = currentResults s"
  "statusClass (abortOutstanding s) = statusClass s"
  "statusHtml (abortOutstanding s) = statusHtml s"
  "resultsDiv (abortOutstanding s) = resultsDiv s"
  "refreshHidden (abortOutstanding s) = refreshHidden s"
  "languageSelect (abortOutstanding s) = languageSelect s"
  "searchTermInput (abortOutstanding s) = searchTermInput s"
  "searchTimeout (abortOutstanding s) = searchTimeout s"
  "unhandled (abortOutstanding s) = unhandled s"
  by (simp_all add: abortOutstanding_def tids_def split: option.splits)

lemma handleSearchSuccess_frame [simp]:
  "tasks (fst (handleSearchSuccess d s)) = tasks s"
  "tids (fst (handleSearchSuccess d s)) = tids s"
  "nextId (fst (handleSearchSuccess d s)) = nextId s"
  "cache (fst (handleSearchSuccess d s)) = cache s"
  "fetchLog (fst (handleSearchSuccess d s)) = fetchLog s"
  "isLoading (fst (handleSearchSuccess d s)) = isLoading s"
  "abortController (fst (handleSearchSuccess d s)) = abortController s"
  "languageSelect (fst (handleSearchSuccess d s)) = languageSelect s"
  "searchTermInput (fst (handleSearchSuccess d s)) = searchTermInput s"
  "searchTimeout (fst (handleSearchSuccess d s)) = searchTimeout s"
  "unhandled (fst (handleSearchSuccess d s)) = unhandled s"
  by (simp_all add: handleSearchSuccess_def displayResults_def showStatus_def Let_def tids_def
      split: option.splits)


lemma beginFetch_tids [simp]:
  "tids (beginFetch q k s) = tids s @ [nextId s]"
  "nextId (beginFetch q k s) = Suc (nextId s)"
  by (simp_all add: beginFetch_def Let_def showStatus_def clearResults_def tids_def)

lemma rejects_frame [simp]:
  "tasks (rejects p) = tasks (fst p)"
  "tids (rejects p) = tids (fst p)"
  "nextId (rejects p) = nextId (fst p)"
  "cache (rejects p) = cache (fst p)"
  "fetchLog (rejects p) = fetchLog (fst p)"
  "isLoading (rejects p) = isLoading (fst p)"
  "abortController (rejects p) = abortController (fst p)"
  "languageSelect (rejects p) = languageSelect (fst p)"
  "searchTermInput (rejects p) = searchTermInput (fst p)"
  "searchTimeout (rejects p) = searchTimeout (fst p)"
  "currentResults (rejects p) = currentResults (fst p)"
  "statusClass (rejects p) = statusClass (fst p)"
  "statusHtml (rejects p) = statusHtml (fst p)"
  "resultsDiv (rejects p) = resultsDiv (fst p)"
  "refreshHidden (rejects p) = refreshHidden (fst p)"
  by (cases p; cases "snd p"; simp add: tids_def)+

lemma catches_frame [simp]:
  "tasks (catches p) = tasks (fst p)"
  "tids (catches p) = tids (fst p)"
  "nextId (catches p) = nextId (fst p)"
  "cache (catches p) = cache (fst p)"
  "fetchLog (catches p) = fetchLog (fst p)"
  "isLoading (catches p) = isLoading (fst p)"
  "abortController (catches p) = abortController (fst p)"
  "languageSelect (catches p) = languageSelect (fst p)"
  "searchTermInput (catches p) = searchTermInput (fst p)"
  "searchTimeout (catches p) = searchTimeout (fst p)"
  "currentResults (catches p) = currentResults (fst p)"
  "resultsDiv (catches p) = resultsDiv (fst p)"
  "refreshHidden (catches p) = refreshHidden (fst p)"
  "unhandled (catches p) = unhandled (fst p)"
  by (cases p; cases "snd p"; simp add: tids_def showStatus_def)+

lemma tasksOk_update [simp]:
  "tasksOk (s\<lparr>languageSelect := a\<rparr>) = tasksOk s"
  "tasksOk (s\<lparr>searchTermInput := b\<rparr>) = tasksOk s"
  "tasksOk (s\<lparr>searchTimeout := c\<rparr>) = tasksOk s"
  "tasksOk (s\<lparr>resultsDiv := v\<rparr>) = tasksOk s"
  "tasksOk (s\<lparr>unhandled := u\<rparr>) = tasksOk s"
  "tasksOk (showStatus ty m s) = tasksOk s"
  "tasksOk (clearResults s) = tasksOk s"
  "tasksOk (abortOutstanding s) = tasksOk s"
  "tasksOk (fst (handleSearchSuccess d s)) = tasksOk s"
  "tasksOk (rejects p) = tasksOk (fst p)"
  "tasksOk (catches p) = tasksOk (fst p)"
  by (simp_all add: tasksOk_def)
     (simp_all add: tids_def showStatus_def clearResults_def)

lemma tasksOk_beginFetch: "tasksOk s \<Longrightarrow> tasksOk (beginFetch q k s)"
  by (rule tasksOk_snoc [of _ s]) simp_all

lemma tasksOk_searchRepositories: "tasksOk s \<Longrightarrow> tasksOk (searchRepositories now l t s)"
  unfolding searchRepositories_def Let_def
  by (auto split: sum.splits option.splits intro: tasksOk_beginFetch)

lemma tasksOk_resume: "tasksOk s \<Longrightarrow> tasksOk (resume now i r s)"
proof (cases "find (\<lambda>t. tid t = i) (tasks s)")
  case None
  then show "tasksOk s \<Longrightarrow> ?thesis" by (simp add: resume_def)
next
  case (Some t)
  let ?s = "s\<lparr>tasks := filter (\<lambda>u. tid u \<noteq> i) (tasks s)\<rparr>"
  have "tids (settled now t r ?s) = tids ?s \<and> nextId (settled now t r ?s) = nextId ?s"
    by (cases r) (simp_all add: settled_def Let_def showStatus_def tids_def)
  then have "tids (resume now i r s) = filter (\<lambda>j. j \<noteq> i) (tids s)"
    and "nextId (resume now i r s) = nextId s"
    using Some by (simp_all add: resume_def tids_def filter_map comp_def)
  then show "tasksOk s \<Longrightarrow> ?thesis" by (rule tasksOk_filter)
qed

lemma tasksOk_showRandomRepository [simp]: "tasksOk (showRandomRepository r s) = tasksOk s"
  by (simp add: showRandomRepository_def displayResults_def Let_def)

lemma tasksOk_step: "tasksOk s \<Longrightarrow> tasksOk (step e s)"
proof (cases e)
  case (Pair now ev)
  assume w: "tasksOk s"
  show ?thesis
    unfolding Pair using w
    by (cases ev)
       (auto simp: handleFormSubmit_def handleLanguageChange_def handleSearchTermInput_def
          timerFires_def retrySearch_def statusTimeout_def Let_def
          tasksOk_searchRepositories tasksOk_resume
          tasksOk_def [of "s\<lparr>statusHtml := MsgNone, statusClass := None\<rparr>"]
          tasksOk_def [of s] tids_def
          split: option.splits)
qed

lemma tasksOk_run: "tasksOk s \<Longrightarrow> tasksOk (run es s)"
  by (induction es arbitrary: s) (simp_all add: tasksOk_step)

lemma tasksOk_constructor: "tasksOk (constructor l t)"
  by (simp add: tasksOk_def constructor_def tids_def)

section \<open>Resolution, step by step\<close>

text \<open>The definitions a concrete run is evaluated with.\<close>

lemma excess_small: "n < 9007199254740992 \<Longrightarrow> excess n = 0"
  by (simp add: excess.simps)

lemma excess_large: "\<not> n < 9007199254740992 \<Longrightarrow> excess n = Suc (excess (n div 2))"
  by (subst excess.simps) simp

lemmas eval_defs = constructor_def handleFormSubmit_def handleLanguageChange_def
  handleSearchTermInput_def timerFires_def retrySearch_def showRandomRepository_def
  statusTimeout_def searchRepositories_def abortOutstanding_def beginFetch_def
  resume_def settled_def handleSearchSuccess_def showStatus_def clearResults_def
  displayResults_def rendersCard_def abort_def buildSearchQuery_def getCacheKey_def
  btoa_def b64alpha_def js_def trim_def isWhiteSpace_def Let_def CACHE_DURATION_def
  randomIndex_def roundDouble_def excess_small excess_large sampleRepo_def ownerlessRepo_def

lemma searchRepositories_fetches:
  assumes "fetchLog (searchRepositories now l t s) \<noteq> fetchLog s"
  shows "\<exists>key. getCacheKey (buildSearchQuery l t) = Inr key
           \<and> searchRepositories now l t s = beginFetch (buildSearchQuery l t) key (abortOutstanding s)
           \<and> (case cache s key of None \<Rightarrow> True | Some cd \<Rightarrow> CACHE_DURATION \<le> now - timestamp cd)"
  using assms
  by (auto simp: searchRepositories_def Let_def split: sum.splits option.splits)

lemma find_fresh:
  "list_all (\<lambda>i. i < n) (map tid ts) \<Longrightarrow> find (\<lambda>t. tid t = n) (ts @ [u]) = (if tid u = n then Some u else None)"
  by (induction ts) auto

lemma filter_fresh:
  "list_all (\<lambda>i. i < n) (map tid ts) \<Longrightarrow> filter (\<lambda>t. tid t \<noteq> n) ts = ts"
  by (induction ts) auto

lemma resume_beginFetch:
  assumes "tasksOk s"
  shows "resume now (nextId s) r (beginFetch q key s) =
           settled now \<lparr>tid = nextId s, query = q, cacheKey = key, aborted = False\<rparr> r
             ((beginFetch q key s)\<lparr>tasks := tasks s\<rparr>)"
proof -
  have b: "list_all (\<lambda>i. i < nextId s) (map tid (tasks s))"
    using assms by (simp add: tasksOk_def tids_def)
  have t: "tasks (beginFetch q key s) = tasks s @ [\<lparr>tid = nextId s, query = q, cacheKey = key, aborted = False\<rparr>]"
    by (simp add: beginFetch_def Let_def showStatus_def clearResults_def)
  show ?thesis
    unfolding resume_def t
    by (simp add: find_fresh [OF b] filter_fresh [OF b])
qed

lemma beginFetch_frame [simp]:
  "fetchLog (beginFetch q key s) = fetchLog s @ [q]"
  "currentResults (beginFetch q k s) = currentResults s"
  "cache (beginFetch q k s) = cache s"
  "languageSelect (beginFetch q k s) = languageSelect s"
  "searchTermInput (beginFetch q k s) = searchTermInput s"
  "statusClass (beginFetch q k s) = Some StLoading"
  "statusHtml (beginFetch q k s) = Searching"
  "tasks (beginFetch q k s) = tasks s @ [\<lparr>tid = nextId s, query = q, cacheKey = k, aborted = False\<rparr>]"
  by (simp_all add: beginFetch_def Let_def showStatus_def clearResults_def)

lemma settled_ok_cache:
  "\<not> aborted t \<Longrightarrow> cache (settled now t (RespOk d) s) (cacheKey t) = Some \<lparr>data = d, timestamp = now\<rparr>"
  by (simp add: settled_def)

lemma settled_idle [simp]:
  "isLoading (settled now t r s) = False"
  "abortController (settled now t r s) = None"
  "fetchLog (settled now t r s) = fetchLog s"
  by (simp_all add: settled_def Let_def showStatus_def split: response.splits)

lemma abortOutstanding_idle: "\<not> isLoading s \<Longrightarrow> abortOutstanding s = s"
  by (simp add: abortOutstanding_def)

lemma resume_find:
  assumes "find (\<lambda>t. tid t = i) (tasks s) = Some t"
  shows "resume now i r s = settled now t r (s\<lparr>tasks := filter (\<lambda>u. tid u \<noteq> i) (tasks s)\<rparr>)"
  using assms by (simp add: resume_def)

section \<open>Base64 is injective\<close>

lemma unat_b64alpha:
  "i < 64 \<Longrightarrow> unat (b64alpha i) =
     (if i < 26 then 65 + i else if i < 52 then 71 + i else if i < 62 then i - 4
      else if i = 62 then 43 else 47)"
  by (simp add: b64alpha_def unat_of_nat)

lemma b64alpha_inj: "i < 64 \<Longrightarrow> j < 64 \<Longrightarrow> b64alpha i = b64alpha j \<Longrightarrow> i = j"
proof -
  assume i: "i < 64" and j: "j < 64" and e: "b64alpha i = b64alpha j"
  from e have "unat (b64alpha i) = unat (b64alpha j)" by simp
  then show "i = j"
    unfolding unat_b64alpha [OF i] unat_b64alpha [OF j]
    using i j by (auto split: if_splits)
qed

lemma b64alpha_not_pad: "i < 64 \<Longrightarrow> b64alpha i \<noteq> 61"
proof
  assume i: "i < 64" and e: "b64alpha i = 61"
  from e have "unat (b64alpha i) = unat (61 :: jschar)" by simp
  then show False
    unfolding unat_b64alpha [OF i] using i by (auto split: if_splits)
qed



lemma split_digit:
  fixes p q x y m :: nat
  assumes "x < m" "y < m" "p * m + x = q * m + y"
  shows "p = q \<and> x = y"
proof -
  have "(p * m + x) div m = p" "(q * m + y) div m = q"
    using assms(1,2) by simp_all
  then have "p = q" using assms(3) by simp
  then show ?thesis using assms(3) by simp
qed

lemma join_digit:
  fixes a a' m :: nat
  assumes "a div m = a' div m" "a mod m = a' mod m"
  shows "a = a'"
  using assms by (metis div_mult_mod_eq)

lemma chunk1:
  fixes a a' :: nat
  assumes "a div 4 = a' div 4" "(a mod 4) * 16 = (a' mod 4) * 16"
  shows "a = a'"
  using assms by (intro join_digit [of a 4 a']) simp_all

lemma chunk2:
  fixes a a' b b' :: nat
  assumes "b < 256" "b' < 256" "a div 4 = a' div 4"
    "(a mod 4) * 16 + b div 16 = (a' mod 4) * 16 + b' div 16"
    "(b mod 16) * 4 = (b' mod 16) * 4"
  shows "a = a' \<and> b = b'"
proof -
  have "b div 16 < 16" "b' div 16 < 16" using assms(1,2) by simp_all
  from split_digit [OF this assms(4)]
  have "a mod 4 = a' mod 4" "b div 16 = b' div 16" by simp_all
  moreover have "b mod 16 = b' mod 16" using assms(5) by simp
  ultimately show ?thesis using assms(3) by (auto intro: join_digit)
qed

lemma chunk3:
  fixes a a' b b' c c' :: nat
  assumes "b < 256" "b' < 256" "c < 256" "c' < 256" "a div 4 = a' div 4"
    "(a mod 4) * 16 + b div 16 = (a' mod 4) * 16 + b' div 16"
    "(b mod 16) * 4 + c div 64 = (b' mod 16) * 4 + c' div 64"
    "c mod 64 = c' mod 64"
  shows "a = a' \<and> b = b' \<and> c = c'"
proof -
  have "b div 16 < 16" "b' div 16 < 16" using assms(1,2) by simp_all
  from split_digit [OF this assms(6)]
  have 1: "a mod 4 = a' mod 4" "b div 16 = b' div 16" by simp_all
  have "c div 64 < 4" "c' div 64 < 4" using assms(3,4) by simp_all
  from split_digit [OF this assms(7)]
  have 2: "b mod 16 = b' mod 16" "c div 64 = c' div 64" by simp_all
  show ?thesis using 1 2 assms(5,8) by (auto intro: join_digit)
qed

lemma idx_bounds:
  fixes a b c :: nat
  assumes "a < 256" "b < 256" "c < 256"
  shows "a div 4 < 64" "(a mod 4) * 16 < 64" "(a mod 4) * 16 + b div 16 < 64"
    "(b mod 16) * 4 < 64" "(b mod 16) * 4 + c div 64 < 64" "c mod 64 < 64"
proof -
  have "a mod 4 < 4" "b mod 16 < 16" by simp_all
  moreover have "b div 16 < 16" "c div 64 < 4" using assms by simp_all
  ultimately show "(a mod 4) * 16 < 64" "(a mod 4) * 16 + b div 16 < 64"
    "(b mod 16) * 4 < 64" "(b mod 16) * 4 + c div 64 < 64" by linarith+
  show "a div 4 < 64" using assms by simp
  show "c mod 64 < 64" by simp
qed


lemma base64_inj:
  "list_all (\<lambda>x. x < 256) xs \<Longrightarrow> list_all (\<lambda>x. x < 256) ys \<Longrightarrow> base64 xs = base64 ys \<Longrightarrow> xs = ys"
proof (induction xs arbitrary: ys rule: base64.induct)
  case 1
  then show ?case by (cases ys rule: base64.cases) simp_all
next
  case (2 a)
  then have a: "a < 256" by simp
  note i = idx_bounds [OF a a a]
  show ?case
  proof (cases ys rule: base64.cases)
    case 1
    with "2.prems"(3) show ?thesis by simp
  next
    case (2 a')
    with "2.prems"(2) have a': "a' < 256" by simp
    note i' = idx_bounds [OF a' a' a']
    from 2 "2.prems"(3) have e: "b64alpha (a div 4) = b64alpha (a' div 4)"
      "b64alpha ((a mod 4) * 16) = b64alpha ((a' mod 4) * 16)" by simp_all
    have "a = a'"
      by (rule chunk1 [OF b64alpha_inj [OF i(1) i'(1) e(1)] b64alpha_inj [OF i(2) i'(2) e(2)]])
    then show ?thesis using 2 by simp
  next
    case (3 a' b')
    with "2.prems"(2) have "b' < 256" by simp
    note j = idx_bounds [OF this this this]
    from 3 "2.prems"(3) have "b64alpha ((b' mod 16) * 4) = 61" by simp
    then show ?thesis using b64alpha_not_pad [OF j(4)] by simp
  next
    case (4 a' b' c' bs)
    with "2.prems"(2) have "c' < 256" by simp
    note j = idx_bounds [OF this this this]
    from 4 "2.prems"(3) have "b64alpha (c' mod 64) = 61" by simp
    then show ?thesis using b64alpha_not_pad [OF j(6)] by simp
  qed
next
  case (3 a b)
  then have ab: "a < 256" "b < 256" by simp_all
  note i = idx_bounds [OF ab ab(1)]
  show ?case
  proof (cases ys rule: base64.cases)
    case 1
    with "3.prems"(3) show ?thesis by simp
  next
    case (2 a')
    from 2 "3.prems"(3) have "b64alpha ((b mod 16) * 4) = 61" by simp
    then show ?thesis using b64alpha_not_pad [OF i(4)] by simp
  next
    case (3 a' b')
    with "3.prems"(2) have ab': "a' < 256" "b' < 256" by simp_all
    note i' = idx_bounds [OF ab' ab'(1)]
    from 3 "3.prems"(3) have e: "b64alpha (a div 4) = b64alpha (a' div 4)"
      "b64alpha ((a mod 4) * 16 + b div 16) = b64alpha ((a' mod 4) * 16 + b' div 16)"
      "b64alpha ((b mod 16) * 4) = b64alpha ((b' mod 16) * 4)" by simp_all
    have "a = a' \<and> b = b'"
      by (rule chunk2 [OF ab(2) ab'(2) b64alpha_inj [OF i(1) i'(1) e(1)]
            b64alpha_inj [OF i(3) i'(3) e(2)] b64alpha_inj [OF i(4) i'(4) e(3)]])
    then show ?thesis using 3 by simp
  next
    case (4 a' b' c' bs)
    with "3.prems"(2) have "c' < 256" by simp
    note j = idx_bounds [OF this this this]
    from 4 "3.prems"(3) have "b64alpha (c' mod 64) = 61" by simp
    then show ?thesis using b64alpha_not_pad [OF j(6)] by simp
  qed
next
  case (4 a b c bs)
  then have abc: "a < 256" "b < 256" "c < 256" and bs: "list_all (\<lambda>x. x < 256) bs" by simp_all
  note i = idx_bounds [OF abc]
  show ?case
  proof (cases ys rule: base64.cases)
    case 1
    with "4.prems"(3) show ?thesis by simp
  next
    case (2 a')
    from 2 "4.prems"(3) have "b64alpha (c mod 64) = 61" by simp
    then show ?thesis using b64alpha_not_pad [OF i(6)] by simp
  next
    case (3 a' b')
    from 3 "4.prems"(3) have "b64alpha (c mod 64) = 61" by simp
    then show ?thesis using b64alpha_not_pad [OF i(6)] by simp
  next
    case (4 a' b' c' bs')
    with "4.prems"(2) have abc': "a' < 256" "b' < 256" "c' < 256"
      and bs': "list_all (\<lambda>x. x < 256) bs'" by simp_all
    note i' = idx_bounds [OF abc']
    from 4 "4.prems"(3) have e: "b64alpha (a div 4) = b64alpha (a' div 4)"
      "b64alpha ((a mod 4) * 16 + b div 16) = b64alpha ((a' mod 4) * 16 + b' div 16)"
      "b64alpha ((b mod 16) * 4 + c div 64) = b64alpha ((b' mod 16) * 4 + c' div 64)"
      "b64alpha (c mod 64) = b64alpha (c' mod 64)"
      and r: "base64 bs = base64 bs'" by simp_all
    have "a = a' \<and> b = b' \<and> c = c'"
      by (rule chunk3 [OF abc(2) abc'(2) abc(3) abc'(3) b64alpha_inj [OF i(1) i'(1) e(1)]
            b64alpha_inj [OF i(3) i'(3) e(2)] b64alpha_inj [OF i(5) i'(5) e(3)]
            b64alpha_inj [OF i(6) i'(6) e(4)]])
    moreover have "bs = bs'" using "4.IH" [OF bs bs' r] .
    ultimately show ?thesis using 4 by simp
  qed
qed

lemma btoa_latin1: "list_all (\<lambda>c. c \<le> 0xFF) q \<Longrightarrow> btoa q = Inr (base64 (map unat q))"
  by (induction q) (auto simp: btoa_def not_less)

lemma btoa_Inr_latin1: "btoa q = Inr b \<Longrightarrow> list_all (\<lambda>c. c \<le> 0xFF) q"
  by (auto simp: btoa_def list_all_iff list_ex_iff not_less split: if_splits)

lemma bytes_of_latin1: "list_all (\<lambda>c. c \<le> 0xFF) (q :: jsstring) \<Longrightarrow> list_all (\<lambda>x. x < 256) (map unat q)"
  by (induction q) (auto simp: word_le_nat_alt)

lemma btoa_inj:
  assumes "btoa q = Inr b" "btoa q' = Inr b"
  shows "q = q'"
proof -
  have l: "list_all (\<lambda>c. c \<le> 0xFF) q" "list_all (\<lambda>c. c \<le> 0xFF) q'"
    using assms by (auto dest: btoa_Inr_latin1)
  then have "base64 (map unat q) = base64 (map unat q')"
    using assms by (simp add: btoa_latin1)
  then have "map unat q = map unat q'"
    using base64_inj bytes_of_latin1 l by blast
  then show ?thesis
    by (simp add: inj_map_eq_map [OF inj_onI])
qed

section \<open>The random index stays inside the array\<close>

lemma excess_div: "n div 2 ^ excess n < 9007199254740992"
proof (induction n rule: excess.induct)
  case (1 n)
  show ?case
  proof (cases "n < 9007199254740992")
    case True
    then show ?thesis by (simp add: excess_small)
  next
    case False
    have "n div 2 ^ Suc (excess (n div 2)) = (n div 2) div 2 ^ excess (n div 2)"
      by (simp add: div_mult2_eq)
    then show ?thesis using 1 False by (simp add: excess_large)
  qed
qed

lemma excess_pos: "0 < excess n \<Longrightarrow> 4503599627370496 \<le> n div 2 ^ excess n"
proof (induction n rule: excess.induct)
  case (1 n)
  show ?case
  proof (cases "n < 9007199254740992")
    case True
    with "1.prems" show ?thesis by (simp add: excess_small)
  next
    case False
    have d: "n div 2 ^ Suc (excess (n div 2)) = (n div 2) div 2 ^ excess (n div 2)"
      by (simp add: div_mult2_eq)
    show ?thesis
    proof (cases "0 < excess (n div 2)")
      case True
      then show ?thesis using "1.IH" [OF False True] False d by (simp add: excess_large)
    next
      case z: False
      then have "n div 2 ^ Suc (excess (n div 2)) = n div 2" by simp
      moreover have "4503599627370496 \<le> n div 2" using False by simp
      ultimately show ?thesis using False by (simp add: excess_large)
    qed
  qed
qed

lemma roundDouble_less:
  assumes N: "N < 9007199254740992 * n" and gap: "N + n \<le> T"
  shows "roundDouble N < T"
proof (cases "excess N = 0")
  case True
  moreover have "0 < n" using N by (cases n) simp_all
  ultimately show ?thesis using gap by (simp add: roundDouble_def)
next
  case False
  define d where "d = excess N"
  define q where "q = N div 2 ^ d"
  define r where "r = N mod 2 ^ d"
  have d: "0 < d" using False by (simp add: d_def)
  have N': "N = q * 2 ^ d + r" unfolding q_def r_def by (rule div_mult_mod_eq [symmetric])
  have r: "r < 2 ^ d" by (simp add: r_def)
  have "4503599627370496 \<le> q" using excess_pos [of N] d by (simp add: d_def q_def)
  then have "4503599627370496 * 2 ^ d \<le> q * 2 ^ d" by simp
  also have "\<dots> \<le> N" using N' by simp
  finally have "4503599627370496 * 2 ^ d < 9007199254740992 * n" using N by simp
  then have small: "(2::nat) ^ d < 2 * n" by simp
  have R: "roundDouble N
      = (if 2 ^ d < 2 * r \<or> (2 * r = 2 ^ d \<and> odd q) then q + 1 else q) * 2 ^ d"
    using d by (simp add: roundDouble_def Let_def d_def q_def r_def)
  show ?thesis
  proof (cases "2 ^ d < 2 * r \<or> (2 * r = 2 ^ d \<and> odd q)")
    case True
    then have h: "(2::nat) ^ d \<le> 2 * r" by auto
    have "roundDouble N = q * 2 ^ d + 2 ^ d" using True R by simp
    then have "2 * roundDouble N = 2 * N + 2 * 2 ^ d - 2 * r" using N' r by simp
    also have "\<dots> \<le> 2 * N + 2 ^ d" using h by simp
    also have "\<dots> < 2 * N + 2 * n" using small by simp
    also have "\<dots> \<le> 2 * T" using gap by simp
    finally show ?thesis by simp
  next
    case False
    then have "roundDouble N = q * 2 ^ d" using R by simp
    also have "\<dots> \<le> N" using N' by simp
    also have "\<dots> < T" using gap small by (cases n) simp_all
    finally show ?thesis .
  qed
qed

lemma randomIndex_less:
  assumes m: "m < 2 ^ 53" and e: "53 \<le> e" and n: "0 < n"
  shows "randomIndex (m, e) n < n"
proof -
  have "(2::nat) ^ 53 \<le> 2 ^ e" using e by (rule power_increasing) simp
  then have "Suc m \<le> 2 ^ e" using m by simp
  then have "Suc m * n \<le> 2 ^ e * n" by (rule mult_le_mono1)
  then have gap: "m * n + n \<le> n * 2 ^ e" by (simp add: mult.commute)
  have "m * n < 9007199254740992 * n" using m n by simp
  from roundDouble_less [OF this gap]
  show ?thesis
    by (simp add: randomIndex_def less_mult_imp_div_less)
qed

section \<open>Suspended calls hold the key of their query\<close>

lemma keysOk_abort: "list_all (\<lambda>c. getCacheKey (query c) = Inr (cacheKey c)) (abort i ts)
    = list_all (\<lambda>c. getCacheKey (query c) = Inr (cacheKey c)) ts"
  by (induction ts) (auto simp: abort_def)

lemma keysOk_update [simp]:
  "keysOk (s\<lparr>languageSelect := a\<rparr>) = keysOk s"
  "keysOk (s\<lparr>searchTermInput := b\<rparr>) = keysOk s"
  "keysOk (s\<lparr>searchTimeout := c\<rparr>) = keysOk s"
  "keysOk (s\<lparr>resultsDiv := v\<rparr>) = keysOk s"
  "keysOk (s\<lparr>unhandled := u\<rparr>) = keysOk s"
  "keysOk (s\<lparr>cache := m\<rparr>) = keysOk s"
  "keysOk (s\<lparr>isLoading := f, abortController := g\<rparr>) = keysOk s"
  "keysOk (s\<lparr>statusHtml := h, statusClass := k\<rparr>) = keysOk s"
  "keysOk (showStatus ty msg s) = keysOk s"
  "keysOk (clearResults s) = keysOk s"
  "keysOk (abortOutstanding s) = keysOk s"
  "keysOk (fst (handleSearchSuccess d s)) = keysOk s"
  "keysOk (rejects p) = keysOk (fst p)"
  "keysOk (catches p) = keysOk (fst p)"
  by (simp_all add: keysOk_def showStatus_def clearResults_def abortOutstanding_def
        keysOk_abort split: option.splits)

lemma keysOk_beginFetch:
  "keysOk s \<Longrightarrow> getCacheKey q = Inr k \<Longrightarrow> keysOk (beginFetch q k s)"
  by (simp add: keysOk_def)

lemma keysOk_searchRepositories: "keysOk s \<Longrightarrow> keysOk (searchRepositories now l t s)"
  unfolding searchRepositories_def Let_def
  by (auto split: sum.splits option.splits intro: keysOk_beginFetch)

lemma keysOk_filter: "keysOk s \<Longrightarrow> keysOk (s\<lparr>tasks := filter P (tasks s)\<rparr>)"
  by (simp add: keysOk_def list_all_iff)

lemma keysOk_resume: "keysOk s \<Longrightarrow> keysOk (resume now i r s)"
proof (cases "find (\<lambda>t. tid t = i) (tasks s)")
  case None
  then show "keysOk s \<Longrightarrow> ?thesis" by (simp add: resume_def)
next
  case (Some t)
  assume "keysOk s"
  then have "keysOk (s\<lparr>tasks := filter (\<lambda>u. tid u \<noteq> i) (tasks s)\<rparr>)"
    by (rule keysOk_filter)
  then have "keysOk (settled now t r (s\<lparr>tasks := filter (\<lambda>u. tid u \<noteq> i) (tasks s)\<rparr>))"
    by (cases r) (simp_all add: settled_def keysOk_def showStatus_def)
  then show ?thesis using Some by (simp add: resume_def)
qed

lemma keysOk_showRandomRepository [simp]: "keysOk (showRandomRepository r s) = keysOk s"
  by (simp add: showRandomRepository_def displayResults_def Let_def)

lemma keysOk_step: "keysOk s \<Longrightarrow> keysOk (step e s)"
proof (cases e)
  case (Pair now ev)
  assume w: "keysOk s"
  show ?thesis
    unfolding Pair using w
    by (cases ev)
       (auto simp: handleFormSubmit_def handleLanguageChange_def handleSearchTermInput_def
          timerFires_def retrySearch_def statusTimeout_def Let_def
          keysOk_searchRepositories keysOk_resume
          split: option.splits)
qed

lemma keysOk_run: "keysOk s \<Longrightarrow> keysOk (run es s)"
  by (induction es arbitrary: s) (simp_all add: keysOk_step)

lemma keysOk_constructor: "keysOk (constructor l t)"
  by (simp add: keysOk_def constructor_def)

lemma keysOk_find:
  "keysOk s \<Longrightarrow> find (\<lambda>u. tid u = i) (tasks s) = Some c \<Longrightarrow> getCacheKey (query c) = Inr (cacheKey c)"
  by (auto simp: keysOk_def list_all_iff find_Some_iff)

section \<open>The three ways of a resolution\<close>

lemma searchRepositories_throws:
  "getCacheKey (buildSearchQuery l t) = Inl e \<Longrightarrow>
   searchRepositories now l t s = rejects (abortOutstanding s, Some e)"
  by (simp add: searchRepositories_def Let_def)

lemma searchRepositories_hit:
  "getCacheKey (buildSearchQuery l t) = Inr k \<Longrightarrow> fresh now s k = Some cd \<Longrightarrow>
   searchRepositories now l t s = rejects (handleSearchSuccess (data cd) (abortOutstanding s))"
  by (auto simp: searchRepositories_def Let_def fresh_def split: option.splits if_splits)

lemma searchRepositories_miss:
  "getCacheKey (buildSearchQuery l t) = Inr k \<Longrightarrow> fresh now s k = None \<Longrightarrow>
   searchRepositories now l t s = beginFetch (buildSearchQuery l t) k (abortOutstanding s)"
  by (auto simp: searchRepositories_def Let_def fresh_def split: option.splits if_splits)

lemma handleSearchSuccess_renders:
  "items d = Some xs \<Longrightarrow> xs \<noteq> [] \<Longrightarrow> list_all rendersCard xs \<Longrightarrow> total_count d = Some n \<Longrightarrow>
   handleSearchSuccess d s
     = (s\<lparr>currentResults := xs, resultsDiv := xs, statusClass := Some StSuccess,
           statusHtml := Found n, refreshHidden := False\<rparr>, None)"
  by (simp add: handleSearchSuccess_def displayResults_def showStatus_def)

lemma handleSearchSuccess_empty:
  "items d = None \<or> items d = Some [] \<Longrightarrow>
   handleSearchSuccess d s = (showStatus StEmpty NoneFound s, None)"
  by (auto simp: handleSearchSuccess_def)

lemma handleSearchSuccess_assigns:
  "items d = Some xs \<Longrightarrow> xs \<noteq> [] \<Longrightarrow> currentResults (fst (handleSearchSuccess d s)) = xs"
  by (simp add: handleSearchSuccess_def displayResults_def showStatus_def Let_def
      split: option.splits)

lemma handleSearchSuccess_kept:
  "currentResults (fst (handleSearchSuccess d s)) = currentResults s
   \<or> (currentResults (fst (handleSearchSuccess d s)) \<noteq> []
       \<and> items d = Some (currentResults (fst (handleSearchSuccess d s))))"
  by (simp add: handleSearchSuccess_def displayResults_def showStatus_def Let_def
      split: option.splits)

section \<open>Where the retained items come from\<close>

lemma fresh_cache: "fresh now s k = Some cd \<Longrightarrow> cache s k = Some cd"
  by (auto simp: fresh_def split: option.splits if_splits)

lemma keptOrReplaced_refl [simp]: "keptOrReplaced D s s"
  by (simp add: keptOrReplaced_def)

lemma keptOrReplaced_same: "currentResults s' = currentResults s \<Longrightarrow> keptOrReplaced D s s'"
  by (simp add: keptOrReplaced_def)

lemma keptOrReplaced_mono: "keptOrReplaced D s s' \<Longrightarrow> D \<subseteq> D' \<Longrightarrow> keptOrReplaced D' s s'"
  by (auto simp: keptOrReplaced_def)

lemma keptOrReplaced_nonempty:
  "keptOrReplaced D s s' \<Longrightarrow> currentResults s \<noteq> [] \<Longrightarrow> currentResults s' \<noteq> []"
  by (auto simp: keptOrReplaced_def)

lemma searchRepositories_kept:
  "keptOrReplaced (data ` ran (cache s)) s (searchRepositories now l t s)"
proof (cases "getCacheKey (buildSearchQuery l t)")
  case (Inl e)
  then show ?thesis by (simp add: searchRepositories_throws keptOrReplaced_same)
next
  case (Inr k)
  show ?thesis
  proof (cases "fresh now s k")
    case None
    then show ?thesis using Inr by (simp add: searchRepositories_miss keptOrReplaced_same)
  next
    case (Some cd)
    then have "data cd \<in> data ` ran (cache s)"
      by (auto simp: ran_def dest: fresh_cache)
    then show ?thesis
      using handleSearchSuccess_kept [of "data cd" "abortOutstanding s"]
      unfolding searchRepositories_hit [OF Inr Some]
      by (auto simp: keptOrReplaced_def)
  qed
qed

lemma searchRepositories_cache [simp]: "cache (searchRepositories now l t s) = cache s"
  by (simp add: searchRepositories_def Let_def split: sum.splits option.splits)

lemma resume_aborted:
  "find (\<lambda>u. tid u = i) (tasks s) = Some c \<Longrightarrow> aborted c \<Longrightarrow>
   resume now i r s
     = s\<lparr>tasks := filter (\<lambda>u. tid u \<noteq> i) (tasks s), isLoading := False, abortController := None\<rparr>"
  by (simp add: resume_find settled_def)

lemma resume_ok:
  "find (\<lambda>u. tid u = i) (tasks s) = Some c \<Longrightarrow> \<not> aborted c \<Longrightarrow>
   resume now i (RespOk d) s
     = (catches (handleSearchSuccess d
          (s\<lparr>tasks := filter (\<lambda>u. tid u \<noteq> i) (tasks s),
             cache := (cache s)(cacheKey c \<mapsto> \<lparr>data = d, timestamp = now\<rparr>)\<rparr>)))
        \<lparr>isLoading := False, abortController := None\<rparr>"
  by (simp add: resume_find settled_def)

lemma resume_failed:
  "find (\<lambda>u. tid u = i) (tasks s) = Some c \<Longrightarrow> \<not> aborted c \<Longrightarrow> \<not> isOk r \<Longrightarrow>
   currentResults (resume now i r s) = currentResults s \<and> cache (resume now i r s) = cache s"
  by (cases r) (simp_all add: resume_find settled_def showStatus_def)

lemma resume_kept:
  "keptOrReplaced (set (payloadOf (now, Settles i r))) s (resume now i r s)"
proof (cases "find (\<lambda>u. tid u = i) (tasks s)")
  case None
  then show ?thesis by (simp add: resume_def)
next
  case (Some c)
  show ?thesis
  proof (cases "aborted c")
    case True
    then show ?thesis using Some by (simp add: resume_aborted keptOrReplaced_same)
  next
    case False
    show ?thesis
    proof (cases "isOk r")
      case True
      then obtain d where r: "r = RespOk d" by (cases r) simp_all
      show ?thesis
        unfolding r resume_ok [OF Some False]
        using handleSearchSuccess_kept [of d "s\<lparr>tasks := filter (\<lambda>u. tid u \<noteq> i) (tasks s),
             cache := (cache s)(cacheKey c \<mapsto> \<lparr>data = d, timestamp = now\<rparr>)\<rparr>"]
        by (auto simp: keptOrReplaced_def)
    next
      case f: False
      then show ?thesis using resume_failed [OF Some False f] by (simp add: keptOrReplaced_same)
    qed
  qed
qed

lemma resume_cache:
  "data ` ran (cache (resume now i r s)) \<subseteq> data ` ran (cache s) \<union> set (payloadOf (now, Settles i r))"
proof (cases "find (\<lambda>u. tid u = i) (tasks s)")
  case None
  then show ?thesis by (simp add: resume_def)
next
  case (Some c)
  show ?thesis
  proof (cases "aborted c")
    case True
    then show ?thesis using Some by (simp add: resume_aborted)
  next
    case False
    show ?thesis
    proof (cases "isOk r")
      case True
      then obtain d where r: "r = RespOk d" by (cases r) simp_all
      have "ran ((cache s)(cacheKey c \<mapsto> \<lparr>data = d, timestamp = now\<rparr>))
              \<subseteq> insert \<lparr>data = d, timestamp = now\<rparr> (ran (cache s))"
        by (auto simp: ran_def split: if_splits)
      then show ?thesis unfolding r resume_ok [OF Some False] by auto
    next
      case f: False
      then show ?thesis using resume_failed [OF Some False f] by auto
    qed
  qed
qed

lemma showRandomRepository_frame [simp]:
  "currentResults (showRandomRepository r s) = currentResults s"
  "cache (showRandomRepository r s) = cache s"
  by (simp_all add: showRandomRepository_def displayResults_def Let_def)

lemma step_kept:
  "keptOrReplaced (set (payloadOf (now, e)) \<union> data ` ran (cache s)) s (step (now, e) s)"
proof (cases e)
  case Submit
  then show ?thesis
    using searchRepositories_kept [of s now "languageSelect s" "trim (searchTermInput s)"]
    by (auto simp: handleFormSubmit_def Let_def showStatus_def keptOrReplaced_def)
next
  case (LanguageChange v)
  then show ?thesis
    using searchRepositories_kept [of "s\<lparr>languageSelect := v\<rparr>" now v "trim (searchTermInput s)"]
    by (auto simp: handleLanguageChange_def Let_def showStatus_def clearResults_def keptOrReplaced_def)
next
  case (TermInput v)
  then show ?thesis
    by (auto simp: handleSearchTermInput_def Let_def showStatus_def clearResults_def keptOrReplaced_def)
next
  case TimerFires
  show ?thesis
  proof (cases "searchTimeout s")
    case None
    then show ?thesis using TimerFires by (simp add: timerFires_def keptOrReplaced_def)
  next
    case (Some lt)
    obtain l t where lt: "lt = (l, t)" by (cases lt)
    show ?thesis
      using TimerFires Some lt searchRepositories_kept [of "s\<lparr>searchTimeout := None\<rparr>" now l t]
      by (auto simp: timerFires_def keptOrReplaced_def)
  qed
next
  case Retry
  then show ?thesis
    using searchRepositories_kept [of s now "languageSelect s" "trim (searchTermInput s)"]
    by (auto simp: retrySearch_def keptOrReplaced_def)
next
  case (Refresh r)
  then show ?thesis by (simp add: keptOrReplaced_def)
next
  case Escape
  then show ?thesis by (simp add: clearResults_def keptOrReplaced_def)
next
  case EnterOnLanguage
  then show ?thesis
    using searchRepositories_kept [of s now "languageSelect s" "trim (searchTermInput s)"]
    by (auto simp: handleLanguageChange_def Let_def showStatus_def clearResults_def keptOrReplaced_def)
next
  case (Settles i r)
  then show ?thesis
    using resume_kept [of now i r s] by (auto intro: keptOrReplaced_mono)
next
  case StatusTimeout
  then show ?thesis by (simp add: statusTimeout_def keptOrReplaced_def)
qed

lemma step_cache:
  "data ` ran (cache (step (now, e) s)) \<subseteq> data ` ran (cache s) \<union> set (payloadOf (now, e))"
proof (cases e)
  case (Settles i r)
  then show ?thesis using resume_cache [of now i r s] by simp
next
  case TimerFires
  then show ?thesis by (auto simp: timerFires_def split: option.splits)
qed (auto simp: handleFormSubmit_def handleLanguageChange_def handleSearchTermInput_def
       retrySearch_def statusTimeout_def Let_def showStatus_def clearResults_def)

lemma fromPayloads_step:
  assumes "fromPayloads D s"
  shows "fromPayloads (D \<union> set (payloadOf ev)) (step ev s)"
proof -
  obtain now e where ev: "ev = (now, e)" by (cases ev)
  have c: "data ` ran (cache s) \<subseteq> D" using assms by (simp add: fromPayloads_def)
  have "keptOrReplaced (D \<union> set (payloadOf ev)) s (step ev s)"
    unfolding ev using step_kept [of now e s] c
    by (auto intro: keptOrReplaced_mono)
  moreover have "data ` ran (cache (step ev s)) \<subseteq> D \<union> set (payloadOf ev)"
    unfolding ev using step_cache [of now e s] c by auto
  ultimately show ?thesis
    using assms by (auto simp: fromPayloads_def keptOrReplaced_def)
qed

lemma fromPayloads_run:
  "fromPayloads D s \<Longrightarrow> fromPayloads (D \<union> set (payloads evs)) (run evs s)"
proof (induction evs arbitrary: D s)
  case Nil
  then show ?case by (simp add: payloads_def)
next
  case (Cons ev evs)
  have "fromPayloads ((D \<union> set (payloadOf ev)) \<union> set (payloads evs)) (run evs (step ev s))"
    by (rule Cons.IH [OF fromPayloads_step [OF Cons.prems]])
  then show ?case by (simp add: payloads_def Un_assoc)
qed

lemma fromPayloads_constructor: "fromPayloads {} (constructor a b)"
  by (simp add: fromPayloads_def constructor_def)

section \<open>Properties of the query builder\<close>

text \<open>
  C8. For every non-empty criteria the query builder (a total function of its two
  arguments, with no state) yields the term, a space, \<open>language:\<close> and the language, then
  \<open> stars:>10\<close> when both are present; \<open>language:\<close>, the language and \<open> stars:>10\<close>
  when only the language is present; the term and \<open> stars:>10\<close> when only the term is
  present. In particular the criteria with term \<open>x\<close> and language \<open>Go\<close> give
  \<open>x language:Go stars:>10\<close>.
\<close>

theorem buildSearchQuery_shapes:
  "(term \<noteq> [] \<and> language \<noteq> [] \<longrightarrow>
      buildSearchQuery language term = term @ js '' language:'' @ language @ js '' stars:>10'')
   \<and> (term = [] \<and> language \<noteq> [] \<longrightarrow>
      buildSearchQuery language term = js ''language:'' @ language @ js '' stars:>10'')
   \<and> (term \<noteq> [] \<and> language = [] \<longrightarrow>
      buildSearchQuery language term = term @ js '' stars:>10'')
   \<and> buildSearchQuery (js ''Go'') (js ''x'') = js ''x language:Go stars:>10''"
  by (simp add: buildSearchQuery_def js_def)

theorem buildSearchQuery_shapes_witness:
  "js ''x'' \<noteq> [] \<and> js ''Go'' \<noteq> []
   \<and> buildSearchQuery (js ''Go'') (js ''x'') = js ''x'' @ js '' language:'' @ js ''Go'' @ js '' stars:>10''
   \<and> buildSearchQuery (js ''Rust'') [] = js ''language:Rust stars:>10''
   \<and> buildSearchQuery [] (js ''react'') = js ''react stars:>10''"
  using buildSearchQuery_shapes [of "js ''x''" "js ''Go''"]
        buildSearchQuery_shapes [of "[]" "js ''Rust''"]
        buildSearchQuery_shapes [of "js ''react''" "[]"]
  by (simp add: js_def)

section \<open>The cache\<close>

text \<open>
  The statement that two resolutions of the same criteria within the five minutes
  issue exactly one network call fails when the second is triggered before the call of
  the first has settled: with Go restored in the selector, the form is submitted at
  time 0 and again at time 1. The first call is aborted, and both went to the network.
\<close>

theorem two_submits_two_calls_counterexample:
  "fetchLog (run [(0, Submit), (1, Submit)] (constructor (js ''Go'') []))
     = [js ''language:Go stars:>10'', js ''language:Go stars:>10'']
   \<and> map aborted (tasks (run [(0, Submit), (1, Submit)] (constructor (js ''Go'') [])))
     = [True, False]"
  by (simp add: eval_defs)

text \<open>
  C4, as the code has it. In any state the page can reach, let the call of a first
  resolution of the criteria be suspended and not aborted, and let it settle at \<open>t1\<close>
  with a successful response \<open>d\<close>: the response is cached under the key of the query
  with the time \<open>t1\<close>. Let a second resolution of the same criteria be triggered at \<open>t2\<close>
  in any state whose cache still holds that entry. When \<open>t2 - t1\<close> is below
  \<open>CACHE_DURATION\<close>, it issues no network call and suspends nothing, and it yields what
  the first yielded: for a body with a count and items that render, the same retained
  and rendered items under the same success banner with the refresh button shown; for a body
  without items, the same banner for no match, the rendered and retained items left as
  they are. When \<open>t2 - t1\<close> has reached \<open>CACHE_DURATION\<close>, the second resolution issues a
  new call for the same query and shows the loading banner, whatever the entry holds.
\<close>

theorem cache_serves_second_resolution:
  fixes evs :: "(int \<times> event) list" and a b l t :: jsstring and t1 t2 :: int
    and i n :: nat and c :: task and d :: search_data and s3 :: searcher and xs :: "repo list"
  defines "s1 \<equiv> run evs (constructor a b)"
  defines "s2 \<equiv> resume t1 i (RespOk d) s1"
  defines "s4 \<equiv> searchRepositories t2 l t s3"
  assumes call: "find (\<lambda>u. tid u = i) (tasks s1) = Some c" and live: "\<not> aborted c"
    and q: "query c = buildSearchQuery l t"
    and kept: "cache s3 (cacheKey c) = cache s2 (cacheKey c)"
  shows "getCacheKey (buildSearchQuery l t) = Inr (cacheKey c)
     \<and> cache s2 (cacheKey c) = Some \<lparr>data = d, timestamp = t1\<rparr>
     \<and> (t2 - t1 < CACHE_DURATION \<longrightarrow> fetchLog s4 = fetchLog s3 \<and> tids s4 = tids s3)
     \<and> (items d = Some xs \<and> xs \<noteq> [] \<and> list_all rendersCard xs \<and> total_count d = Some n \<longrightarrow>
          currentResults s2 = xs \<and> resultsDiv s2 = xs \<and> statusClass s2 = Some StSuccess
          \<and> statusHtml s2 = Found n \<and> refreshHidden s2 = False
          \<and> (t2 - t1 < CACHE_DURATION \<longrightarrow>
                currentResults s4 = xs \<and> resultsDiv s4 = xs \<and> statusClass s4 = Some StSuccess
                \<and> statusHtml s4 = Found n \<and> refreshHidden s4 = False))
     \<and> (items d = None \<or> items d = Some [] \<longrightarrow>
          statusClass s2 = Some StEmpty \<and> statusHtml s2 = NoneFound
          \<and> (t2 - t1 < CACHE_DURATION \<longrightarrow>
                statusClass s4 = Some StEmpty \<and> statusHtml s4 = NoneFound
                \<and> resultsDiv s4 = resultsDiv s3 \<and> currentResults s4 = currentResults s3))
     \<and> (CACHE_DURATION \<le> t2 - t1 \<longrightarrow>
          fetchLog s4 = fetchLog s3 @ [buildSearchQuery l t] \<and> tids s4 = tids s3 @ [nextId s3]
          \<and> statusClass s4 = Some StLoading)"
proof -
  let ?k = "cacheKey c"
  have "keysOk s1" unfolding s1_def by (rule keysOk_run [OF keysOk_constructor])
  from keysOk_find [OF this call] q
  have key: "getCacheKey (buildSearchQuery l t) = Inr ?k" by simp
  have s2: "s2 = settled t1 c (RespOk d) (s1\<lparr>tasks := filter (\<lambda>u. tid u \<noteq> i) (tasks s1)\<rparr>)"
    unfolding s2_def by (rule resume_find [OF call])
  have entry: "cache s2 ?k = Some \<lparr>data = d, timestamp = t1\<rparr>"
    unfolding s2 by (rule settled_ok_cache [OF live])
  then have e3: "cache s3 ?k = Some \<lparr>data = d, timestamp = t1\<rparr>" using kept by simp
  have hit: "s4 = rejects (handleSearchSuccess d (abortOutstanding s3))"
    if "t2 - t1 < CACHE_DURATION"
    unfolding s4_def
    using searchRepositories_hit [OF key, of t2 s3 "\<lparr>data = d, timestamp = t1\<rparr>"] that e3
    by (simp add: fresh_def)
  have miss: "s4 = beginFetch (buildSearchQuery l t) ?k (abortOutstanding s3)"
    if "CACHE_DURATION \<le> t2 - t1"
    unfolding s4_def
    using searchRepositories_miss [OF key, of t2 s3] that e3
    by (simp add: fresh_def)
  have 3: "fetchLog s4 = fetchLog s3 \<and> tids s4 = tids s3" if "t2 - t1 < CACHE_DURATION"
    unfolding hit [OF that] by simp
  have 4: "currentResults s2 = xs \<and> resultsDiv s2 = xs \<and> statusClass s2 = Some StSuccess
          \<and> statusHtml s2 = Found n \<and> refreshHidden s2 = False
          \<and> (t2 - t1 < CACHE_DURATION \<longrightarrow>
                currentResults s4 = xs \<and> resultsDiv s4 = xs \<and> statusClass s4 = Some StSuccess
                \<and> statusHtml s4 = Found n \<and> refreshHidden s4 = False)"
    if w: "items d = Some xs \<and> xs \<noteq> [] \<and> list_all rendersCard xs \<and> total_count d = Some n"
  proof -
    from w have r: "handleSearchSuccess d s
     = (s\<lparr>currentResults := xs, resultsDiv := xs, statusClass := Some StSuccess,
           statusHtml := Found n, refreshHidden := False\<rparr>, None)" for s
      by (simp add: handleSearchSuccess_renders)
    have first: "currentResults s2 = xs \<and> resultsDiv s2 = xs \<and> statusClass s2 = Some StSuccess
          \<and> statusHtml s2 = Found n \<and> refreshHidden s2 = False"
      unfolding s2 using live by (simp add: settled_def r)
    have second: "currentResults s4 = xs \<and> resultsDiv s4 = xs \<and> statusClass s4 = Some StSuccess
                \<and> statusHtml s4 = Found n \<and> refreshHidden s4 = False"
      if "t2 - t1 < CACHE_DURATION"
      unfolding hit [OF that] by (simp add: r)
    show ?thesis using first second by blast
  qed
  have 5: "statusClass s2 = Some StEmpty \<and> statusHtml s2 = NoneFound
          \<and> (t2 - t1 < CACHE_DURATION \<longrightarrow>
                statusClass s4 = Some StEmpty \<and> statusHtml s4 = NoneFound
                \<and> resultsDiv s4 = resultsDiv s3 \<and> currentResults s4 = currentResults s3)"
    if w: "items d = None \<or> items d = Some []"
  proof -
    from w have r: "handleSearchSuccess d s = (showStatus StEmpty NoneFound s, None)" for s
      by (rule handleSearchSuccess_empty)
    have first: "statusClass s2 = Some StEmpty \<and> statusHtml s2 = NoneFound"
      unfolding s2 using live by (simp add: settled_def r showStatus_def)
    have second: "statusClass s4 = Some StEmpty \<and> statusHtml s4 = NoneFound
                \<and> resultsDiv s4 = resultsDiv s3 \<and> currentResults s4 = currentResults s3"
      if "t2 - t1 < CACHE_DURATION"
      unfolding hit [OF that] by (simp add: r showStatus_def)
    show ?thesis using first second by blast
  qed
  have 6: "fetchLog s4 = fetchLog s3 @ [buildSearchQuery l t] \<and> tids s4 = tids s3 @ [nextId s3]
          \<and> statusClass s4 = Some StLoading"
    if "CACHE_DURATION \<le> t2 - t1"
    unfolding miss [OF that] by simp
  show ?thesis using key entry 3 4 5 6 by blast
qed


theorem cache_serves_second_resolution_witness:
  "find (\<lambda>u. tid u = 0) (tasks (run [(0, Submit)] (constructor (js ''Go'') []))) = Some \<lparr>tid = 0, query = js ''language:Go stars:>10'', cacheKey = js ''github_search_bGFuZ3VhZ2U6R28gc3RhcnM6PjEw'', aborted = False\<rparr>
   \<and> resultsDiv (run [(200, Escape)] (resume 100 0 (RespOk \<lparr>total_count = Some 2, items = Some [sampleRepo 5, sampleRepo 6]\<rparr>) (run [(0, Submit)] (constructor (js ''Go'') [])))) = []
   \<and> (1000 :: int) - 100 < CACHE_DURATION
   \<and> fetchLog (searchRepositories 1000 (js ''Go'') [] (run [(200, Escape)] (resume 100 0 (RespOk \<lparr>total_count = Some 2, items = Some [sampleRepo 5, sampleRepo 6]\<rparr>) (run [(0, Submit)] (constructor (js ''Go'') []))))) = [js ''language:Go stars:>10'']
   \<and> resultsDiv (searchRepositories 1000 (js ''Go'') [] (run [(200, Escape)] (resume 100 0 (RespOk \<lparr>total_count = Some 2, items = Some [sampleRepo 5, sampleRepo 6]\<rparr>) (run [(0, Submit)] (constructor (js ''Go'') []))))) = [sampleRepo 5, sampleRepo 6]
   \<and> currentResults (searchRepositories 1000 (js ''Go'') [] (run [(200, Escape)] (resume 100 0 (RespOk \<lparr>total_count = Some 2, items = Some [sampleRepo 5, sampleRepo 6]\<rparr>) (run [(0, Submit)] (constructor (js ''Go'') []))))) = [sampleRepo 5, sampleRepo 6]
   \<and> statusHtml (searchRepositories 1000 (js ''Go'') [] (run [(200, Escape)] (resume 100 0 (RespOk \<lparr>total_count = Some 2, items = Some [sampleRepo 5, sampleRepo 6]\<rparr>) (run [(0, Submit)] (constructor (js ''Go'') []))))) = Found 2
   \<and> CACHE_DURATION \<le> (300100 :: int) - 100
   \<and> fetchLog (searchRepositories 300100 (js ''Go'') [] (run [(200, Escape)] (resume 100 0 (RespOk \<lparr>total_count = Some 2, items = Some [sampleRepo 5, sampleRepo 6]\<rparr>) (run [(0, Submit)] (constructor (js ''Go'') [])))))
       = [js ''language:Go stars:>10'', js ''language:Go stars:>10'']"
proof -
  have call: "find (\<lambda>u. tid u = 0) (tasks (run [(0, Submit)] (constructor (js ''Go'') []))) = Some \<lparr>tid = 0, query = js ''language:Go stars:>10'', cacheKey = js ''github_search_bGFuZ3VhZ2U6R28gc3RhcnM6PjEw'', aborted = False\<rparr>"
    by (simp add: eval_defs)
  have live: "\<not> aborted \<lparr>tid = 0, query = js ''language:Go stars:>10'', cacheKey = js ''github_search_bGFuZ3VhZ2U6R28gc3RhcnM6PjEw'', aborted = False\<rparr>"
    by simp
  have q: "query \<lparr>tid = 0, query = js ''language:Go stars:>10'', cacheKey = js ''github_search_bGFuZ3VhZ2U6R28gc3RhcnM6PjEw'', aborted = False\<rparr> = buildSearchQuery (js ''Go'') []"
    by (simp add: buildSearchQuery_def js_def)
  have kept: "cache (run [(200, Escape)] (resume 100 0 (RespOk \<lparr>total_count = Some 2, items = Some [sampleRepo 5, sampleRepo 6]\<rparr>) (run [(0, Submit)] (constructor (js ''Go'') [])))) (cacheKey \<lparr>tid = 0, query = js ''language:Go stars:>10'', cacheKey = js ''github_search_bGFuZ3VhZ2U6R28gc3RhcnM6PjEw'', aborted = False\<rparr>)
      = cache (resume 100 0 (RespOk \<lparr>total_count = Some 2, items = Some [sampleRepo 5, sampleRepo 6]\<rparr>) (run [(0, Submit)] (constructor (js ''Go'') []))) (cacheKey \<lparr>tid = 0, query = js ''language:Go stars:>10'', cacheKey = js ''github_search_bGFuZ3VhZ2U6R28gc3RhcnM6PjEw'', aborted = False\<rparr>)"
    by (simp add: clearResults_def)
  have d: "items \<lparr>total_count = Some 2, items = Some [sampleRepo 5, sampleRepo 6]\<rparr> = Some [sampleRepo 5, sampleRepo 6]
      \<and> [sampleRepo 5, sampleRepo 6] \<noteq> []
      \<and> list_all rendersCard [sampleRepo 5, sampleRepo 6]
      \<and> total_count \<lparr>total_count = Some 2, items = Some [sampleRepo 5, sampleRepo 6]\<rparr> = Some 2"
    by (simp add: rendersCard_def sampleRepo_def)
  have c1: "(1000 :: int) - 100 < CACHE_DURATION" and c2: "CACHE_DURATION \<le> (300100 :: int) - 100"
    by (simp_all add: CACHE_DURATION_def)
  have f3: "fetchLog (run [(200, Escape)] (resume 100 0 (RespOk \<lparr>total_count = Some 2, items = Some [sampleRepo 5, sampleRepo 6]\<rparr>) (run [(0, Submit)] (constructor (js ''Go'') [])))) = [js ''language:Go stars:>10'']"
    and r3: "resultsDiv (run [(200, Escape)] (resume 100 0 (RespOk \<lparr>total_count = Some 2, items = Some [sampleRepo 5, sampleRepo 6]\<rparr>) (run [(0, Submit)] (constructor (js ''Go'') [])))) = []"
    by (simp_all add: eval_defs)
  have b: "buildSearchQuery (js ''Go'') [] = js ''language:Go stars:>10''"
    by (simp add: buildSearchQuery_def js_def)
  show ?thesis
    using cache_serves_second_resolution
            [OF call live q kept, where ?t2.0 = 1000 and xs = "[sampleRepo 5, sampleRepo 6]" and n = 2]
          cache_serves_second_resolution
            [OF call live q kept, where ?t2.0 = 300100 and xs = "[sampleRepo 5, sampleRepo 6]" and n = 2]
          call d c1 c2 f3 r3
    unfolding b by simp
qed

section \<open>Responses without items\<close>

text \<open>
  The statement that a successful response with zero items is kept out of the cache
  fails: the language Go is selected on a fresh page, and the call settles at time 1
  with \<open>total_count\<close> 0 and no items. The cache then holds that response under the key
  of the query \<open>language:Go stars:>10\<close>.
\<close>

theorem empty_response_cached_counterexample:
  "cache (run [(0, LanguageChange (js ''Go'')),
               (1, Settles 0 (RespOk \<lparr>total_count = Some 0, items = Some []\<rparr>))]
            (constructor [] []))
         (js ''github_search_bGFuZ3VhZ2U6R28gc3RhcnM6PjEw'')
     = Some \<lparr>data = \<lparr>total_count = Some 0, items = Some []\<rparr>, timestamp = 1\<rparr>"
  by (simp add: eval_defs)

text \<open>
  C2, as the code has it. When the network call of a suspended, not aborted resolution
  settles with a successful response that has no items (the field missing or the list
  empty), the banner shows the type \<open>empty\<close> with the text for no match, and the
  response is written to the cache under the key of the resolution with the time of
  arrival, as every successful response is. The retained and the rendered items stay as
  they were.
\<close>

theorem empty_response_shown_and_cached:
  fixes d :: search_data
  assumes "find (\<lambda>t. tid t = i) (tasks s) = Some t" and "\<not> aborted t"
    and "items d = None \<or> items d = Some []"
  shows "statusClass (resume now i (RespOk d) s) = Some StEmpty
     \<and> statusHtml (resume now i (RespOk d) s) = NoneFound
     \<and> cache (resume now i (RespOk d) s) (cacheKey t) = Some \<lparr>data = d, timestamp = now\<rparr>
     \<and> currentResults (resume now i (RespOk d) s) = currentResults s
     \<and> resultsDiv (resume now i (RespOk d) s) = resultsDiv s"
  using assms(2,3) unfolding resume_find [OF assms(1)]
  by (auto simp: settled_def handleSearchSuccess_def showStatus_def)

theorem empty_response_shown_and_cached_witness:
  "find (\<lambda>t. tid t = 0) (tasks (run [(0, LanguageChange (js ''Go''))] (constructor [] [])))
     = Some \<lparr>tid = 0, query = js ''language:Go stars:>10'',
             cacheKey = js ''github_search_bGFuZ3VhZ2U6R28gc3RhcnM6PjEw'', aborted = False\<rparr>
   \<and> statusClass (resume 1 0 (RespOk \<lparr>total_count = Some 0, items = Some []\<rparr>)
        (run [(0, LanguageChange (js ''Go''))] (constructor [] []))) = Some StEmpty
   \<and> cache (resume 1 0 (RespOk \<lparr>total_count = Some 0, items = Some []\<rparr>)
        (run [(0, LanguageChange (js ''Go''))] (constructor [] [])))
        (js ''github_search_bGFuZ3VhZ2U6R28gc3RhcnM6PjEw'')
      = Some \<lparr>data = \<lparr>total_count = Some 0, items = Some []\<rparr>, timestamp = 1\<rparr>"
proof -
  have f: "find (\<lambda>t. tid t = 0) (tasks (run [(0, LanguageChange (js ''Go''))] (constructor [] [])))
     = Some \<lparr>tid = 0, query = js ''language:Go stars:>10'',
             cacheKey = js ''github_search_bGFuZ3VhZ2U6R28gc3RhcnM6PjEw'', aborted = False\<rparr>"
    by (simp add: eval_defs)
  show ?thesis
    using empty_response_shown_and_cached [OF f, of "\<lparr>total_count = Some 0, items = Some []\<rparr>" 1] f
    by simp
qed

section \<open>Text input and the debounce timer\<close>

text \<open>
  The statement that every text input which schedules no search resets the page to the
  idle prompt fails: on a fresh page the term \<open>abc\<close> is typed, the timer fires, the call
  settles with one item, and the term is then shortened to \<open>ab\<close>. No search is
  scheduled, and the success banner and the rendered item stay.
\<close>

theorem short_term_input_counterexample:
  "searchTimeout (run [(0, TermInput (js ''abc'')), (800, TimerFires),
                       (900, Settles 0 (RespOk \<lparr>total_count = Some 1, items = Some [sampleRepo 7]\<rparr>)),
                       (1000, TermInput (js ''ab''))]
                   (constructor [] [])) = None
   \<and> statusClass (run [(0, TermInput (js ''abc'')), (800, TimerFires),
                       (900, Settles 0 (RespOk \<lparr>total_count = Some 1, items = Some [sampleRepo 7]\<rparr>)),
                       (1000, TermInput (js ''ab''))]
                   (constructor [] [])) = Some StSuccess
   \<and> resultsDiv (run [(0, TermInput (js ''abc'')), (800, TimerFires),
                       (900, Settles 0 (RespOk \<lparr>total_count = Some 1, items = Some [sampleRepo 7]\<rparr>)),
                       (1000, TermInput (js ''ab''))]
                   (constructor [] [])) = [sampleRepo 7]"
  by (simp add: eval_defs)

text \<open>
  C5, as the code has it. On a text input the pending timer is disarmed, and a debounced
  search is scheduled if and only if the trimmed term has at least 3 code units or a
  language is selected; the timer then holds the selected language and the trimmed term.
  When the trimmed term and the language are both empty, no search is scheduled and the
  page is reset: the prompt to begin is shown, the rendered items are cleared and the
  refresh button is hidden. When the trimmed term has 1 or 2 code units and no language
  is selected, no search is scheduled and nothing else changes. The handler itself
  never calls the network; an armed timer that fires runs the search with the captured
  arguments.
\<close>

theorem text_input_schedules:
  fixes s :: searcher
  shows "((searchTimeout (step (now, TermInput v) s) \<noteq> None)
            = (3 \<le> length (trim v) \<or> languageSelect s \<noteq> []))
     \<and> (3 \<le> length (trim v) \<or> languageSelect s \<noteq> [] \<longrightarrow>
          step (now, TermInput v) s
            = s\<lparr>searchTermInput := v, searchTimeout := Some (languageSelect s, trim v)\<rparr>)
     \<and> (trim v = [] \<and> languageSelect s = [] \<longrightarrow>
          step (now, TermInput v) s
            = s\<lparr>searchTermInput := v, searchTimeout := None, statusClass := Some StEmpty,
                 statusHtml := SelectToBegin, resultsDiv := [], refreshHidden := True\<rparr>)
     \<and> (trim v \<noteq> [] \<and> length (trim v) < 3 \<and> languageSelect s = [] \<longrightarrow>
          step (now, TermInput v) s = s\<lparr>searchTermInput := v, searchTimeout := None\<rparr>)
     \<and> fetchLog (step (now, TermInput v) s) = fetchLog s
     \<and> timerFires later (s\<lparr>searchTimeout := Some (l, t)\<rparr>)
          = searchRepositories later l t (s\<lparr>searchTimeout := None\<rparr>)"
  by (auto simp: handleSearchTermInput_def Let_def showStatus_def clearResults_def timerFires_def)

theorem text_input_schedules_witness:
  "3 \<le> length (trim (js '' react ''))
   \<and> step (0, TermInput (js '' react '')) (constructor [] [])
       = (constructor [] [])\<lparr>searchTermInput := js '' react '',
                               searchTimeout := Some ([], js ''react'')\<rparr>
   \<and> trim (js ''  '') = []
   \<and> statusHtml (step (0, TermInput (js ''  '')) (constructor [] [])) = SelectToBegin
   \<and> trim (js ''ab'') \<noteq> [] \<and> length (trim (js ''ab'')) < 3
   \<and> step (0, TermInput (js ''ab'')) (constructor [] [])
       = (constructor [] [])\<lparr>searchTermInput := js ''ab'', searchTimeout := None\<rparr>"
proof -
  have t: "trim (js '' react '') = js ''react''" "trim (js ''  '') = []" "trim (js ''ab'') = js ''ab''"
    by (simp_all add: trim_def js_def isWhiteSpace_def)
  have l: "languageSelect (constructor [] []) = []"
    by (simp add: constructor_def)
  show ?thesis
    using text_input_schedules [of 0 "js '' react ''" "constructor [] []"]
          text_input_schedules [of 0 "js ''  ''" "constructor [] []"]
          text_input_schedules [of 0 "js ''ab''" "constructor [] []"]
    unfolding t l by (simp add: js_def)
qed

section \<open>Triggers with empty criteria\<close>

text \<open>
  The statement that every trigger with empty criteria clears the rendered results
  fails for the form: Go is selected, the selection is removed while the call is
  suspended, the call settles with one item, and the form is submitted with both inputs
  empty. The validation text is shown and the rendered item stays.
\<close>

theorem empty_submit_keeps_results_counterexample:
  "languageSelect (run [(0, LanguageChange (js ''Go'')), (1, LanguageChange []),
                        (2, Settles 0 (RespOk \<lparr>total_count = Some 1, items = Some [sampleRepo 7]\<rparr>)),
                        (3, Submit)]
                    (constructor [] [])) = []
   \<and> trim (searchTermInput (run [(0, LanguageChange (js ''Go'')), (1, LanguageChange []),
                        (2, Settles 0 (RespOk \<lparr>total_count = Some 1, items = Some [sampleRepo 7]\<rparr>)),
                        (3, Submit)]
                    (constructor [] []))) = []
   \<and> statusHtml (run [(0, LanguageChange (js ''Go'')), (1, LanguageChange []),
                        (2, Settles 0 (RespOk \<lparr>total_count = Some 1, items = Some [sampleRepo 7]\<rparr>)),
                        (3, Submit)]
                    (constructor [] [])) = PleaseSelect
   \<and> resultsDiv (run [(0, LanguageChange (js ''Go'')), (1, LanguageChange []),
                        (2, Settles 0 (RespOk \<lparr>total_count = Some 1, items = Some [sampleRepo 7]\<rparr>)),
                        (3, Submit)]
                    (constructor [] [])) = [sampleRepo 7]"
  by (simp add: eval_defs)

text \<open>
  The retry button has no check of its own: with both inputs empty while the error
  banner of an earlier call is shown, it asks the network for \<open> stars:>10\<close>.
\<close>

lemma retry_with_empty_criteria_fetches:
  "fetchLog (run [(0, LanguageChange (js ''Go'')), (1, LanguageChange []),
                  (2, Settles 0 (RespNotOk 503 (js ''Service Unavailable''))),
                  (3, Retry)]
              (constructor [] []))
     = [js ''language:Go stars:>10'', js '' stars:>10'']"
  by (simp add: eval_defs)

text \<open>
  C7, as the code has it. With no language selected and a term input that is empty
  after trimming, a submit of the form, a change of the language selector and a text
  input each show a banner of type \<open>empty\<close> and call the network for nothing. The
  language change and the text input show the prompt to begin, clear the rendered items
  and hide the refresh button; the submit shows the validation text of the form and
  changes nothing else.
\<close>

theorem empty_criteria_no_search:
  fixes s :: searcher
  assumes "languageSelect s = []" and "trim (searchTermInput s) = []" and "trim v = []"
  shows "step (now, Submit) s = s\<lparr>statusClass := Some StEmpty, statusHtml := PleaseSelect\<rparr>
     \<and> step (now, LanguageChange []) s
         = s\<lparr>statusClass := Some StEmpty, statusHtml := SelectToBegin,
              resultsDiv := [], refreshHidden := True\<rparr>
     \<and> step (now, TermInput v) s
         = s\<lparr>searchTermInput := v, searchTimeout := None, statusClass := Some StEmpty,
              statusHtml := SelectToBegin, resultsDiv := [], refreshHidden := True\<rparr>
     \<and> fetchLog (step (now, Submit) s) = fetchLog s
     \<and> fetchLog (step (now, LanguageChange []) s) = fetchLog s
     \<and> fetchLog (step (now, TermInput v) s) = fetchLog s"
  using assms
  by (simp add: handleFormSubmit_def handleLanguageChange_def handleSearchTermInput_def
      Let_def showStatus_def clearResults_def)

theorem empty_criteria_no_search_witness:
  "languageSelect (constructor [] (js ''  '')) = []
   \<and> trim (searchTermInput (constructor [] (js ''  ''))) = []
   \<and> trim [] = []
   \<and> step (5, Submit) (constructor [] (js ''  ''))
       = (constructor [] (js ''  ''))\<lparr>statusClass := Some StEmpty, statusHtml := PleaseSelect\<rparr>
   \<and> fetchLog (step (5, LanguageChange []) (constructor [] (js ''  ''))) = []
   \<and> resultsDiv (step (5, TermInput []) (constructor [] (js ''  ''))) = []"
proof -
  have a: "languageSelect (constructor [] (js ''  '')) = []"
    and b: "trim (searchTermInput (constructor [] (js ''  ''))) = []"
    and c: "fetchLog (constructor [] (js ''  '')) = []"
    and d: "trim [] = []"
    by (simp_all add: constructor_def trim_def js_def isWhiteSpace_def)
  show ?thesis
    using empty_criteria_no_search [OF a b d, of 5] a b c d by simp
qed

section \<open>The cache key\<close>

text \<open>
  C9 fails on the code. The term of the two code units U+65E5 U+672C is typed on a
  fresh page, with no language, and the form is submitted. The built query has code
  units above U+00FF, \<^verbatim>\<open>btoa\<close> throws
  \<^verbatim>\<open>InvalidCharacterError\<close> and no cache key is computed. \<^verbatim>\<open>searchRepositories\<close> calls
  \<^verbatim>\<open>getCacheKey\<close> before its \<^verbatim>\<open>try\<close>: the resolution ends with a rejection nobody
  handles, no network call is made and the banner stays as it was.
\<close>

theorem getCacheKey_throws_on_non_latin1:
  "getCacheKey (buildSearchQuery [] [0x65E5, 0x672C]) = Inl InvalidCharacterError
   \<and> unhandled (run [(0, TermInput [0x65E5, 0x672C]), (1, Submit)]
                  (constructor [] [])) = [InvalidCharacterError]
   \<and> fetchLog (run [(0, TermInput [0x65E5, 0x672C]), (1, Submit)]
                  (constructor [] [])) = []
   \<and> statusClass (run [(0, TermInput [0x65E5, 0x672C]), (1, Submit)]
                  (constructor [] [])) = None"
  by (simp add: eval_defs)

text \<open>
  On the strings \<^verbatim>\<open>btoa\<close> accepts the key is what it should be: for every query string
  whose code units are all at most U+00FF the cache key is computed, and two query
  strings whose keys are computed and equal are the same string.
\<close>

lemma getCacheKey_latin1_injective:
  "(list_all (\<lambda>c. c \<le> 0xFF) q \<longrightarrow> (\<exists>k. getCacheKey q = Inr k))
   \<and> (getCacheKey q = Inr k \<and> getCacheKey q' = Inr k \<longrightarrow> q = q')"
  by (auto simp: getCacheKey_def btoa_latin1 split: sum.splits dest: btoa_inj)

lemma getCacheKey_latin1_injective_example:
  "list_all (\<lambda>c. c \<le> 0xFF) (js ''Go'')
   \<and> getCacheKey (js ''Go'') = Inr (js ''github_search_R28='')
   \<and> (\<exists>k. getCacheKey (js ''Go'') = Inr k)"
proof -
  have l: "list_all (\<lambda>c. c \<le> 0xFF) (js ''Go'')"
    by (simp add: js_def)
  have k: "getCacheKey (js ''Go'') = Inr (js ''github_search_R28='')"
    by (simp add: getCacheKey_def btoa_def b64alpha_def js_def)
  show ?thesis
    using getCacheKey_latin1_injective
            [of "js ''Go''" "js ''github_search_R28=''" "js ''Go''"] l k
    by simp
qed

section \<open>The retained result set\<close>

text \<open>
  The statement that after an Error outcome the refresh button still renders one item
  of the most recent successful result set fails. On a fresh page Go is selected and
  the call settles with two items that render; Rust is selected and its call settles
  with a successful response whose only item has no owner. The retained items are
  replaced by that item before the rendering throws, and the error banner is shown.
  The refresh button then draws that item, the rendering throws again, and nothing is
  rendered.
\<close>

theorem ownerless_item_replaces_retained_counterexample:
  "statusClass (run [(0, LanguageChange (js ''Go'')), (1, Settles 0 (RespOk \<lparr>total_count = Some 2, items = Some [sampleRepo 5, sampleRepo 6]\<rparr>)), (2, LanguageChange (js ''Rust'')), (3, Settles 1 (RespOk \<lparr>total_count = Some 1, items = Some [ownerlessRepo]\<rparr>))] (constructor [] [])) = Some StError
   \<and> statusHtml (run [(0, LanguageChange (js ''Go'')), (1, Settles 0 (RespOk \<lparr>total_count = Some 2, items = Some [sampleRepo 5, sampleRepo 6]\<rparr>)), (2, LanguageChange (js ''Rust'')), (3, Settles 1 (RespOk \<lparr>total_count = Some 1, items = Some [ownerlessRepo]\<rparr>))] (constructor [] [])) = ErrorRetry (Thrown TypeError)
   \<and> currentResults (run [(0, LanguageChange (js ''Go'')), (1, Settles 0 (RespOk \<lparr>total_count = Some 2, items = Some [sampleRepo 5, sampleRepo 6]\<rparr>)), (2, LanguageChange (js ''Rust'')), (3, Settles 1 (RespOk \<lparr>total_count = Some 1, items = Some [ownerlessRepo]\<rparr>))] (constructor [] [])) = [ownerlessRepo]
   \<and> resultsDiv (run [(0, LanguageChange (js ''Go'')), (1, Settles 0 (RespOk \<lparr>total_count = Some 2, items = Some [sampleRepo 5, sampleRepo 6]\<rparr>)), (2, LanguageChange (js ''Rust'')), (3, Settles 1 (RespOk \<lparr>total_count = Some 1, items = Some [ownerlessRepo]\<rparr>)), (4, Refresh (4503599627370496, 53))] (constructor [] [])) = []
   \<and> unhandled (run [(0, LanguageChange (js ''Go'')), (1, Settles 0 (RespOk \<lparr>total_count = Some 2, items = Some [sampleRepo 5, sampleRepo 6]\<rparr>)), (2, LanguageChange (js ''Rust'')), (3, Settles 1 (RespOk \<lparr>total_count = Some 1, items = Some [ownerlessRepo]\<rparr>)), (4, Refresh (4503599627370496, 53))] (constructor [] [])) = [TypeError]"
  by (simp add: eval_defs)

text \<open>
  C10, as the code has it. The retained result set \<open>currentResults\<close> is replaced exactly
  when a response body with a non-empty item list is handed to \<^verbatim>\<open>handleSearchSuccess\<close>,
  and it is then that item list, whether or not the rendering that follows succeeds:
  the body of a suspended call that is not aborted and settles successfully, and the
  body of a cache entry younger than \<open>CACHE_DURATION\<close> for the resolved query. Whatever
  happens to the page, the retained items stay as they were or are now the non-empty
  item list of the body this event delivered or of a body in the cache; once not
  empty they never become empty. A call that fails, a call that is aborted or not
  suspended at all, a body without items, delivered or cached, a resolution that goes to
  the network or cannot compute its key, a text input, the refresh button, Escape and
  the time-out of the banner all keep the retained items. In every run from a fresh page the retained
  items are empty or the item list of a successful response of that run. The refresh
  button does nothing while the retained items are empty. Otherwise, for a random
  double below one, it draws one of the retained items: when that item renders, it is
  rendered alone; when it does not, the rendering throws and the page stays as it was.
\<close>

theorem retained_items_replaced_on_handover:
  fixes s :: searcher and evs :: "(int \<times> event) list" and now :: int and e :: event
    and i m ex :: nat and c :: task and d :: search_data and xs :: "repo list"
    and l t k a b v :: jsstring and cd :: cached and r :: response and rnd :: "nat \<times> nat"
  shows "(find (\<lambda>u. tid u = i) (tasks s) = Some c \<and> \<not> aborted c \<and> items d = Some xs \<and> xs \<noteq> []
           \<longrightarrow> currentResults (step (now, Settles i (RespOk d)) s) = xs)
     \<and> (getCacheKey (buildSearchQuery l t) = Inr k \<and> fresh now s k = Some cd
         \<and> items (data cd) = Some xs \<and> xs \<noteq> []
           \<longrightarrow> currentResults (searchRepositories now l t s) = xs)
     \<and> keptOrReplaced (set (payloadOf (now, e)) \<union> data ` ran (cache s)) s (step (now, e) s)
     \<and> (currentResults s \<noteq> [] \<longrightarrow> currentResults (step (now, e) s) \<noteq> [])
     \<and> (find (\<lambda>u. tid u = i) (tasks s) = None
         \<or> (\<exists>c'. find (\<lambda>u. tid u = i) (tasks s) = Some c' \<and> aborted c')
         \<or> \<not> isOk r \<or> (\<exists>d'. r = RespOk d' \<and> (items d' = None \<or> items d' = Some []))
           \<longrightarrow> currentResults (step (now, Settles i r) s) = currentResults s)
     \<and> (getCacheKey (buildSearchQuery l t) = Inr k \<and> fresh now s k = Some cd
         \<and> (items (data cd) = None \<or> items (data cd) = Some [])
           \<longrightarrow> currentResults (searchRepositories now l t s) = currentResults s)
     \<and> ((\<exists>err. getCacheKey (buildSearchQuery l t) = Inl err)
         \<or> (getCacheKey (buildSearchQuery l t) = Inr k \<and> fresh now s k = None)
           \<longrightarrow> currentResults (searchRepositories now l t s) = currentResults s)
     \<and> currentResults (step (now, TermInput v) s) = currentResults s
     \<and> currentResults (step (now, Refresh rnd) s) = currentResults s
     \<and> currentResults (step (now, Escape) s) = currentResults s
     \<and> currentResults (step (now, StatusTimeout) s) = currentResults s
     \<and> (currentResults (run evs (constructor a b)) = []
         \<or> (\<exists>d' \<in> set (payloads evs).
               items d' = Some (currentResults (run evs (constructor a b)))))
     \<and> (currentResults s = [] \<longrightarrow> showRandomRepository rnd s = s)
     \<and> (m < 2 ^ 53 \<and> 53 \<le> ex \<and> currentResults s \<noteq> [] \<longrightarrow>
          (\<exists>x \<in> set (currentResults s).
             if rendersCard x then showRandomRepository (m, ex) s = s\<lparr>resultsDiv := [x]\<rparr>
             else showRandomRepository (m, ex) s = s\<lparr>unhandled := unhandled s @ [TypeError]\<rparr>))"
proof -
  have 1: "currentResults (step (now, Settles i (RespOk d)) s) = xs"
    if "find (\<lambda>u. tid u = i) (tasks s) = Some c \<and> \<not> aborted c \<and> items d = Some xs \<and> xs \<noteq> []"
    using that by (simp add: resume_ok handleSearchSuccess_assigns)
  have 2: "currentResults (searchRepositories now l t s) = xs"
    if "getCacheKey (buildSearchQuery l t) = Inr k \<and> fresh now s k = Some cd
         \<and> items (data cd) = Some xs \<and> xs \<noteq> []"
    using that by (simp add: searchRepositories_hit handleSearchSuccess_assigns)
  have 3: "keptOrReplaced (set (payloadOf (now, e)) \<union> data ` ran (cache s)) s (step (now, e) s)"
    by (rule step_kept)
  have 4: "currentResults (step (now, e) s) \<noteq> []" if "currentResults s \<noteq> []"
    using keptOrReplaced_nonempty [OF 3 that] .
  have 5: "currentResults (step (now, Settles i r) s) = currentResults s"
    if h: "find (\<lambda>u. tid u = i) (tasks s) = None
         \<or> (\<exists>c'. find (\<lambda>u. tid u = i) (tasks s) = Some c' \<and> aborted c')
         \<or> \<not> isOk r \<or> (\<exists>d'. r = RespOk d' \<and> (items d' = None \<or> items d' = Some []))"
  proof (cases "find (\<lambda>u. tid u = i) (tasks s)")
    case None
    then show ?thesis by (simp add: resume_def)
  next
    case (Some c')
    show ?thesis
    proof (cases "aborted c'")
      case True
      then show ?thesis using Some by (simp add: resume_aborted)
    next
      case False
      show ?thesis
      proof (cases "isOk r")
        case True
        with h Some False obtain d' where r: "r = RespOk d'"
          and e: "items d' = None \<or> items d' = Some []"
          by auto
        show ?thesis
          using Some False by (simp add: r resume_ok handleSearchSuccess_empty [OF e] showStatus_def)
      next
        case f: False
        then show ?thesis using resume_failed [OF Some False f] by simp
      qed
    qed
  qed
  have 6: "currentResults (searchRepositories now l t s) = currentResults s"
    if "getCacheKey (buildSearchQuery l t) = Inr k \<and> fresh now s k = Some cd
         \<and> (items (data cd) = None \<or> items (data cd) = Some [])"
    using that by (simp add: searchRepositories_hit handleSearchSuccess_empty showStatus_def)
  have miss: "currentResults (searchRepositories now l t s) = currentResults s"
    if "(\<exists>err. getCacheKey (buildSearchQuery l t) = Inl err)
         \<or> (getCacheKey (buildSearchQuery l t) = Inr k \<and> fresh now s k = None)"
    using that by (auto simp: searchRepositories_throws searchRepositories_miss)
  have ev: "currentResults (step (now, TermInput v) s) = currentResults s"
    "currentResults (step (now, Refresh rnd) s) = currentResults s"
    "currentResults (step (now, Escape) s) = currentResults s"
    "currentResults (step (now, StatusTimeout) s) = currentResults s"
    by (simp_all add: handleSearchTermInput_def Let_def showStatus_def clearResults_def
        statusTimeout_def)
  have "fromPayloads ({} \<union> set (payloads evs)) (run evs (constructor a b))"
    by (rule fromPayloads_run [OF fromPayloads_constructor])
  then have 7: "currentResults (run evs (constructor a b)) = []
         \<or> (\<exists>d' \<in> set (payloads evs).
               items d' = Some (currentResults (run evs (constructor a b))))"
    by (simp add: fromPayloads_def)
  have 8: "showRandomRepository rnd s = s" if "currentResults s = []"
    using that by (simp add: showRandomRepository_def)
  have 9: "\<exists>x \<in> set (currentResults s).
             if rendersCard x then showRandomRepository (m, ex) s = s\<lparr>resultsDiv := [x]\<rparr>
             else showRandomRepository (m, ex) s = s\<lparr>unhandled := unhandled s @ [TypeError]\<rparr>"
    if h: "m < 2 ^ 53 \<and> 53 \<le> ex \<and> currentResults s \<noteq> []"
  proof -
    let ?j = "randomIndex (m, ex) (length (currentResults s))"
    have j: "?j < length (currentResults s)"
      using h by (simp add: randomIndex_less)
    then have "currentResults s ! ?j \<in> set (currentResults s)" by (rule nth_mem)
    moreover have "if rendersCard (currentResults s ! ?j)
        then showRandomRepository (m, ex) s = s\<lparr>resultsDiv := [currentResults s ! ?j]\<rparr>
        else showRandomRepository (m, ex) s = s\<lparr>unhandled := unhandled s @ [TypeError]\<rparr>"
      using h j by (simp add: showRandomRepository_def displayResults_def Let_def)
    ultimately show ?thesis by blast
  qed
  show ?thesis using 1 2 3 4 5 6 miss ev 7 8 9 by blast
qed

theorem retained_items_replaced_on_handover_witness:
  "find (\<lambda>u. tid u = 1) (tasks (run [(0, LanguageChange (js ''Go'')), (1, Settles 0 (RespOk \<lparr>total_count = Some 2, items = Some [sampleRepo 5, sampleRepo 6]\<rparr>)), (2, LanguageChange (js ''Rust''))] (constructor [] []))) = Some \<lparr>tid = 1, query = js ''language:Rust stars:>10'', cacheKey = js ''github_search_bGFuZ3VhZ2U6UnVzdCBzdGFyczo+MTA='', aborted = False\<rparr>
   \<and> currentResults (run [(0, LanguageChange (js ''Go'')), (1, Settles 0 (RespOk \<lparr>total_count = Some 2, items = Some [sampleRepo 5, sampleRepo 6]\<rparr>)), (2, LanguageChange (js ''Rust''))] (constructor [] [])) = [sampleRepo 5, sampleRepo 6]
   \<and> statusClass (step (3, Settles 1 (RespNotOk 503 (js ''Service Unavailable''))) (run [(0, LanguageChange (js ''Go'')), (1, Settles 0 (RespOk \<lparr>total_count = Some 2, items = Some [sampleRepo 5, sampleRepo 6]\<rparr>)), (2, LanguageChange (js ''Rust''))] (constructor [] []))) = Some StError
   \<and> currentResults (step (3, Settles 1 (RespNotOk 503 (js ''Service Unavailable''))) (run [(0, LanguageChange (js ''Go'')), (1, Settles 0 (RespOk \<lparr>total_count = Some 2, items = Some [sampleRepo 5, sampleRepo 6]\<rparr>)), (2, LanguageChange (js ''Rust''))] (constructor [] []))) = [sampleRepo 5, sampleRepo 6]
   \<and> currentResults (step (3, Settles 1 (RespOk \<lparr>total_count = Some 1, items = Some [ownerlessRepo]\<rparr>)) (run [(0, LanguageChange (js ''Go'')), (1, Settles 0 (RespOk \<lparr>total_count = Some 2, items = Some [sampleRepo 5, sampleRepo 6]\<rparr>)), (2, LanguageChange (js ''Rust''))] (constructor [] []))) = [ownerlessRepo]
   \<and> (4503599627370496 :: nat) < 2 ^ 53
   \<and> resultsDiv (showRandomRepository (4503599627370496, 53) (step (3, Settles 1 (RespNotOk 503 (js ''Service Unavailable''))) (run [(0, LanguageChange (js ''Go'')), (1, Settles 0 (RespOk \<lparr>total_count = Some 2, items = Some [sampleRepo 5, sampleRepo 6]\<rparr>)), (2, LanguageChange (js ''Rust''))] (constructor [] [])))) = [sampleRepo 6]
   \<and> showRandomRepository (4503599627370496, 53) (constructor [] []) = constructor [] []"
proof -
  have call: "find (\<lambda>u. tid u = 1) (tasks (run [(0, LanguageChange (js ''Go'')), (1, Settles 0 (RespOk \<lparr>total_count = Some 2, items = Some [sampleRepo 5, sampleRepo 6]\<rparr>)), (2, LanguageChange (js ''Rust''))] (constructor [] []))) = Some \<lparr>tid = 1, query = js ''language:Rust stars:>10'', cacheKey = js ''github_search_bGFuZ3VhZ2U6UnVzdCBzdGFyczo+MTA='', aborted = False\<rparr>"
    by (simp add: eval_defs)
  have live: "\<not> aborted \<lparr>tid = 1, query = js ''language:Rust stars:>10'', cacheKey = js ''github_search_bGFuZ3VhZ2U6UnVzdCBzdGFyczo+MTA='', aborted = False\<rparr>" by simp
  have bad: "items \<lparr>total_count = Some 1, items = Some [ownerlessRepo]\<rparr> = Some [ownerlessRepo] \<and> [ownerlessRepo] \<noteq> []" by simp
  have cur: "currentResults (run [(0, LanguageChange (js ''Go'')), (1, Settles 0 (RespOk \<lparr>total_count = Some 2, items = Some [sampleRepo 5, sampleRepo 6]\<rparr>)), (2, LanguageChange (js ''Rust''))] (constructor [] [])) = [sampleRepo 5, sampleRepo 6]"
    and err: "statusClass (step (3, Settles 1 (RespNotOk 503 (js ''Service Unavailable''))) (run [(0, LanguageChange (js ''Go'')), (1, Settles 0 (RespOk \<lparr>total_count = Some 2, items = Some [sampleRepo 5, sampleRepo 6]\<rparr>)), (2, LanguageChange (js ''Rust''))] (constructor [] []))) = Some StError"
    and pick: "resultsDiv (showRandomRepository (4503599627370496, 53) (step (3, Settles 1 (RespNotOk 503 (js ''Service Unavailable''))) (run [(0, LanguageChange (js ''Go'')), (1, Settles 0 (RespOk \<lparr>total_count = Some 2, items = Some [sampleRepo 5, sampleRepo 6]\<rparr>)), (2, LanguageChange (js ''Rust''))] (constructor [] [])))) = [sampleRepo 6]"
    and none: "currentResults (constructor [] []) = []"
    by (simp_all add: eval_defs)
  have f: "\<not> isOk (RespNotOk 503 (js ''Service Unavailable''))" by simp
  have m: "(4503599627370496 :: nat) < 2 ^ 53" by simp
  show ?thesis
    using retained_items_replaced_on_handover
            [where i = 1 and s = "(run [(0, LanguageChange (js ''Go'')), (1, Settles 0 (RespOk \<lparr>total_count = Some 2, items = Some [sampleRepo 5, sampleRepo 6]\<rparr>)), (2, LanguageChange (js ''Rust''))] (constructor [] []))"
               and c = "\<lparr>tid = 1, query = js ''language:Rust stars:>10'', cacheKey = js ''github_search_bGFuZ3VhZ2U6UnVzdCBzdGFyczo+MTA='', aborted = False\<rparr>"
               and d = "\<lparr>total_count = Some 1, items = Some [ownerlessRepo]\<rparr>" and xs = "[ownerlessRepo]" and now = 3
               and r = "(RespNotOk 503 (js ''Service Unavailable''))" and e = "Settles 1 (RespNotOk 503 (js ''Service Unavailable''))"
               and evs = "[]" and a = "[]" and b = "[]"]
          retained_items_replaced_on_handover
            [where s = "(step (3, Settles 1 (RespNotOk 503 (js ''Service Unavailable''))) (run [(0, LanguageChange (js ''Go'')), (1, Settles 0 (RespOk \<lparr>total_count = Some 2, items = Some [sampleRepo 5, sampleRepo 6]\<rparr>)), (2, LanguageChange (js ''Rust''))] (constructor [] [])))"
               and m = 4503599627370496 and ex = 53 and evs = "[]" and a = "[]" and b = "[]"]
          retained_items_replaced_on_handover
            [where s = "constructor [] []" and rnd = "(4503599627370496, 53)"
               and evs = "[]" and a = "[]" and b = "[]"]
          call live bad cur err pick none f m
    by simp
qed

section \<open>Retry\<close>

text \<open>
  The statement that retry re-issues the query that failed does not hold in general:
  on a fresh page the term \<open>react\<close> is typed, the timer fires, the call fails with
  status 503, and the term is then replaced by \<open>go\<close> (too short to schedule anything,
  so the error banner with its retry button stays). The retry asks for
  \<open>go stars:>10\<close>, not for \<open>react stars:>10\<close>.
\<close>

theorem retry_after_edit_counterexample:
  "statusClass (run [(0, TermInput (js ''react'')), (800, TimerFires),
                     (900, Settles 0 (RespNotOk 503 (js ''Service Unavailable''))),
                     (1000, TermInput (js ''go''))]
                 (constructor [] [])) = Some StError
   \<and> fetchLog (run [(0, TermInput (js ''react'')), (800, TimerFires),
                     (900, Settles 0 (RespNotOk 503 (js ''Service Unavailable''))),
                     (1000, TermInput (js ''go''))]
                 (constructor [] [])) = [js ''react stars:>10'']
   \<and> fetchLog (run [(0, TermInput (js ''react'')), (800, TimerFires),
                     (900, Settles 0 (RespNotOk 503 (js ''Service Unavailable''))),
                     (1000, TermInput (js ''go'')), (1100, Retry)]
                 (constructor [] []))
       = [js ''react stars:>10'', js ''go stars:>10'']"
  by (simp add: eval_defs)

text \<open>
  C6, as the code has it. \<^verbatim>\<open>retrySearch\<close> keeps no criteria of its own: in every state,
  so after every resolution that ended in the error banner, it resolves the criteria
  that the language selector and the trimmed term input hold when it is invoked. It
  issues a network call exactly when the key of the query built from them can be
  computed and the cache holds no entry for it younger than \<open>CACHE_DURATION\<close>, and the
  call is for that query; otherwise it issues nothing, and with such an entry it hands
  the cached body to \<^verbatim>\<open>handleSearchSuccess\<close>. Hence it re-issues a query that failed
  exactly when the inputs still build that query and the cache holds no fresh entry for
  it. A suspended call that is not aborted and fails (a response that is not ok, a
  rejection) ends in the error banner and leaves the cache, the inputs and the
  network log as they were; a successful response whose items do not render ends in
  the error banner too, with the response already in the cache.
\<close>

theorem retry_reads_current_inputs:
  fixes s s0 :: searcher and now t1 :: int and qf :: jsstring and i :: nat and c :: task
    and r :: response and d :: search_data
  shows "((fetchLog (retrySearch now s) = fetchLog s @ [qf])
            = (buildSearchQuery (languageSelect s) (trim (searchTermInput s)) = qf
               \<and> (\<exists>k. getCacheKey qf = Inr k \<and> fresh now s k = None)))
     \<and> (fetchLog (retrySearch now s) = fetchLog s
         \<or> fetchLog (retrySearch now s)
             = fetchLog s @ [buildSearchQuery (languageSelect s) (trim (searchTermInput s))])
     \<and> (getCacheKey (buildSearchQuery (languageSelect s) (trim (searchTermInput s))) = Inr k
         \<and> fresh now s k = Some cd \<longrightarrow>
           retrySearch now s = rejects (handleSearchSuccess (data cd) (abortOutstanding s)))
     \<and> (find (\<lambda>u. tid u = i) (tasks s0) = Some c \<and> \<not> aborted c \<and> \<not> isOk r \<longrightarrow>
           statusClass (resume t1 i r s0) = Some StError
           \<and> cache (resume t1 i r s0) = cache s0
           \<and> languageSelect (resume t1 i r s0) = languageSelect s0
           \<and> searchTermInput (resume t1 i r s0) = searchTermInput s0
           \<and> fetchLog (resume t1 i r s0) = fetchLog s0)
     \<and> (find (\<lambda>u. tid u = i) (tasks s0) = Some c \<and> \<not> aborted c
         \<and> items d = Some xs \<and> xs \<noteq> [] \<and> \<not> list_all rendersCard xs \<longrightarrow>
           statusClass (resume t1 i (RespOk d) s0) = Some StError
           \<and> cache (resume t1 i (RespOk d) s0) (cacheKey c) = Some \<lparr>data = d, timestamp = t1\<rparr>
           \<and> languageSelect (resume t1 i (RespOk d) s0) = languageSelect s0
           \<and> searchTermInput (resume t1 i (RespOk d) s0) = searchTermInput s0)"
proof -
  let ?l = "languageSelect s" and ?t = "trim (searchTermInput s)"
  let ?q = "buildSearchQuery ?l ?t"
  have log: "(getCacheKey ?q = Inl e \<longrightarrow> fetchLog (retrySearch now s) = fetchLog s)
      \<and> (getCacheKey ?q = Inr k \<and> fresh now s k = Some cd \<longrightarrow>
            retrySearch now s = rejects (handleSearchSuccess (data cd) (abortOutstanding s))
            \<and> fetchLog (retrySearch now s) = fetchLog s)
      \<and> (getCacheKey ?q = Inr k \<and> fresh now s k = None \<longrightarrow>
            fetchLog (retrySearch now s) = fetchLog s @ [?q])" for e k cd
    unfolding retrySearch_def
    by (auto simp: searchRepositories_throws searchRepositories_hit searchRepositories_miss)
  have 1: "(fetchLog (retrySearch now s) = fetchLog s @ [qf])
            = (?q = qf \<and> (\<exists>k. getCacheKey qf = Inr k \<and> fresh now s k = None))"
  proof (cases "getCacheKey ?q")
    case (Inl e)
    then show ?thesis using log [of e] by auto
  next
    case (Inr k)
    show ?thesis
    proof (cases "fresh now s k")
      case None
      then show ?thesis using Inr log [of _ k] by auto
    next
      case (Some cd)
      then show ?thesis using Inr log [of _ k cd] by auto
    qed
  qed
  have 2: "fetchLog (retrySearch now s) = fetchLog s
         \<or> fetchLog (retrySearch now s) = fetchLog s @ [?q]"
  proof (cases "getCacheKey ?q")
    case (Inl e)
    then show ?thesis using log [of e] by auto
  next
    case (Inr k)
    then show ?thesis using log [of _ k] by (cases "fresh now s k") auto
  qed
  have 4: "statusClass (resume t1 i r s0) = Some StError
           \<and> cache (resume t1 i r s0) = cache s0
           \<and> languageSelect (resume t1 i r s0) = languageSelect s0
           \<and> searchTermInput (resume t1 i r s0) = searchTermInput s0
           \<and> fetchLog (resume t1 i r s0) = fetchLog s0"
    if "find (\<lambda>u. tid u = i) (tasks s0) = Some c \<and> \<not> aborted c \<and> \<not> isOk r"
    using that by (cases r) (simp_all add: resume_find settled_def showStatus_def)
  have 5: "statusClass (resume t1 i (RespOk d) s0) = Some StError
           \<and> cache (resume t1 i (RespOk d) s0) (cacheKey c) = Some \<lparr>data = d, timestamp = t1\<rparr>
           \<and> languageSelect (resume t1 i (RespOk d) s0) = languageSelect s0
           \<and> searchTermInput (resume t1 i (RespOk d) s0) = searchTermInput s0"
    if "find (\<lambda>u. tid u = i) (tasks s0) = Some c \<and> \<not> aborted c
         \<and> items d = Some xs \<and> xs \<noteq> [] \<and> \<not> list_all rendersCard xs"
    using that
    by (simp add: resume_find settled_def handleSearchSuccess_def displayResults_def
        showStatus_def)
  show ?thesis using 1 2 log 4 5 by blast
qed

theorem retry_reads_current_inputs_witness:
  "find (\<lambda>u. tid u = 0) (tasks (run [(0, Submit)] (constructor (js ''Go'') []))) = Some \<lparr>tid = 0, query = js ''language:Go stars:>10'', cacheKey = js ''github_search_bGFuZ3VhZ2U6R28gc3RhcnM6PjEw'', aborted = False\<rparr>
   \<and> \<not> isOk (RespNotOk 503 (js ''Service Unavailable''))
   \<and> statusClass (resume 100 0 (RespNotOk 503 (js ''Service Unavailable'')) (run [(0, Submit)] (constructor (js ''Go'') []))) = Some StError
   \<and> fetchLog (resume 100 0 (RespNotOk 503 (js ''Service Unavailable'')) (run [(0, Submit)] (constructor (js ''Go'') []))) = [js ''language:Go stars:>10'']
   \<and> fetchLog (retrySearch 200 (resume 100 0 (RespNotOk 503 (js ''Service Unavailable'')) (run [(0, Submit)] (constructor (js ''Go'') [])))) = [js ''language:Go stars:>10'', js ''language:Go stars:>10'']
   \<and> statusClass (resume 100 0 (RespOk \<lparr>total_count = Some 1, items = Some [ownerlessRepo]\<rparr>) (run [(0, Submit)] (constructor (js ''Go'') []))) = Some StError
   \<and> fetchLog (resume 100 0 (RespOk \<lparr>total_count = Some 1, items = Some [ownerlessRepo]\<rparr>) (run [(0, Submit)] (constructor (js ''Go'') []))) = [js ''language:Go stars:>10'']
   \<and> fetchLog (retrySearch 200 (resume 100 0 (RespOk \<lparr>total_count = Some 1, items = Some [ownerlessRepo]\<rparr>) (run [(0, Submit)] (constructor (js ''Go'') [])))) = [js ''language:Go stars:>10'']"
proof -
  have call: "find (\<lambda>u. tid u = 0) (tasks (run [(0, Submit)] (constructor (js ''Go'') []))) = Some \<lparr>tid = 0, query = js ''language:Go stars:>10'', cacheKey = js ''github_search_bGFuZ3VhZ2U6R28gc3RhcnM6PjEw'', aborted = False\<rparr>"
    by (simp add: eval_defs)
  have f: "\<not> isOk (RespNotOk 503 (js ''Service Unavailable''))" by simp
  have live: "\<not> aborted \<lparr>tid = 0, query = js ''language:Go stars:>10'', cacheKey = js ''github_search_bGFuZ3VhZ2U6R28gc3RhcnM6PjEw'', aborted = False\<rparr>" by simp
  have bad: "items \<lparr>total_count = Some 1, items = Some [ownerlessRepo]\<rparr> = Some [ownerlessRepo] \<and> [ownerlessRepo] \<noteq> []
      \<and> \<not> list_all rendersCard [ownerlessRepo]"
    by (simp add: rendersCard_def ownerlessRepo_def)
  have fE: "fetchLog (resume 100 0 (RespNotOk 503 (js ''Service Unavailable'')) (run [(0, Submit)] (constructor (js ''Go'') []))) = [js ''language:Go stars:>10'']"
    and fT: "fetchLog (resume 100 0 (RespOk \<lparr>total_count = Some 1, items = Some [ownerlessRepo]\<rparr>) (run [(0, Submit)] (constructor (js ''Go'') []))) = [js ''language:Go stars:>10'']"
    and rE: "fetchLog (retrySearch 200 (resume 100 0 (RespNotOk 503 (js ''Service Unavailable'')) (run [(0, Submit)] (constructor (js ''Go'') [])))) = [js ''language:Go stars:>10'', js ''language:Go stars:>10'']"
    and rT: "fetchLog (retrySearch 200 (resume 100 0 (RespOk \<lparr>total_count = Some 1, items = Some [ownerlessRepo]\<rparr>) (run [(0, Submit)] (constructor (js ''Go'') [])))) = [js ''language:Go stars:>10'']"
    by (simp_all add: eval_defs)
  show ?thesis
    using retry_reads_current_inputs
            [where now = 200 and s = "(resume 100 0 (RespNotOk 503 (js ''Service Unavailable'')) (run [(0, Submit)] (constructor (js ''Go'') [])))" and qf = "js ''language:Go stars:>10''" and i = 0 and ?s0.0 = "(run [(0, Submit)] (constructor (js ''Go'') []))" and c = "\<lparr>tid = 0, query = js ''language:Go stars:>10'', cacheKey = js ''github_search_bGFuZ3VhZ2U6R28gc3RhcnM6PjEw'', aborted = False\<rparr>" and r = "(RespNotOk 503 (js ''Service Unavailable''))" and ?t1.0 = 100 and d = "\<lparr>total_count = Some 1, items = Some [ownerlessRepo]\<rparr>" and xs = "[ownerlessRepo]"]
          call f live bad fE fT rE rT
    by simp
qed

section \<open>Supersession\<close>

text \<open>
  C3 fails on the code. On a fresh page the language is changed to Go, then to Rust
  while the first call is suspended: the first call is aborted, and its continuation
  runs next (the response given to an aborted call plays no role). Its \<^verbatim>\<open>finally\<close> block
  clears \<^verbatim>\<open>isLoading\<close> and \<^verbatim>\<open>abortController\<close>, which by then belong to the call for Rust.
  One call is live and the page no longer knows it. A third change, to Python, therefore
  aborts nothing, and two network calls are live at once, for Rust and for Python.
\<close>

theorem third_trigger_leaves_two_calls_live:
  "map tid (inFlight (run [(0, LanguageChange (js ''Go'')),
                           (1, LanguageChange (js ''Rust'')),
                           (1, Settles 0 (RespFailed [])),
                           (2, LanguageChange (js ''Python''))]
                       (constructor [] []))) = [1, 2]
   \<and> map query (inFlight (run [(0, LanguageChange (js ''Go'')),
                           (1, LanguageChange (js ''Rust'')),
                           (1, Settles 0 (RespFailed [])),
                           (2, LanguageChange (js ''Python''))]
                       (constructor [] [])))
       = [js ''language:Rust stars:>10'', js ''language:Python stars:>10'']
   \<and> isLoading (run [(0, LanguageChange (js ''Go'')),
                           (1, LanguageChange (js ''Rust'')),
                           (1, Settles 0 (RespFailed []))]
                       (constructor [] [])) = False
   \<and> map tid (inFlight (run [(0, LanguageChange (js ''Go'')),
                           (1, LanguageChange (js ''Rust'')),
                           (1, Settles 0 (RespFailed []))]
                       (constructor [] []))) = [1]"
  by (simp add: eval_defs inFlight_def)

text \<open>
  C1 fails on the code, by the same defect. After the three changes above, the call for
  Python settles first and its two items are rendered. The call for Rust, superseded
  but never aborted, settles later: its item replaces the rendered ones, its count is
  shown, and its response is written to the cache, while the selector still says
  Python.
\<close>

theorem superseded_response_overwrites_later_one:
  "languageSelect (run [(0, LanguageChange (js ''Go'')),
                        (1, LanguageChange (js ''Rust'')),
                        (1, Settles 0 (RespFailed [])),
                        (2, LanguageChange (js ''Python'')),
                        (3, Settles 2 (RespOk \<lparr>total_count = Some 2, items = Some [sampleRepo 20, sampleRepo 21]\<rparr>)),
                        (4, Settles 1 (RespOk \<lparr>total_count = Some 1, items = Some [sampleRepo 10]\<rparr>))]
                    (constructor [] [])) = js ''Python''
   \<and> resultsDiv (run [(0, LanguageChange (js ''Go'')),
                        (1, LanguageChange (js ''Rust'')),
                        (1, Settles 0 (RespFailed [])),
                        (2, LanguageChange (js ''Python'')),
                        (3, Settles 2 (RespOk \<lparr>total_count = Some 2, items = Some [sampleRepo 20, sampleRepo 21]\<rparr>))]
                    (constructor [] [])) = [sampleRepo 20, sampleRepo 21]
   \<and> resultsDiv (run [(0, LanguageChange (js ''Go'')),
                        (1, LanguageChange (js ''Rust'')),
                        (1, Settles 0 (RespFailed [])),
                        (2, LanguageChange (js ''Python'')),
                        (3, Settles 2 (RespOk \<lparr>total_count = Some 2, items = Some [sampleRepo 20, sampleRepo 21]\<rparr>)),
                        (4, Settles 1 (RespOk \<lparr>total_count = Some 1, items = Some [sampleRepo 10]\<rparr>))]
                    (constructor [] [])) = [sampleRepo 10]
   \<and> statusHtml (run [(0, LanguageChange (js ''Go'')),
                        (1, LanguageChange (js ''Rust'')),
                        (1, Settles 0 (RespFailed [])),
                        (2, LanguageChange (js ''Python'')),
                        (3, Settles 2 (RespOk \<lparr>total_count = Some 2, items = Some [sampleRepo 20, sampleRepo 21]\<rparr>)),
                        (4, Settles 1 (RespOk \<lparr>total_count = Some 1, items = Some [sampleRepo 10]\<rparr>))]
                    (constructor [] [])) = Found 1
   \<and> cache (run [(0, LanguageChange (js ''Go'')),
                        (1, LanguageChange (js ''Rust'')),
                        (1, Settles 0 (RespFailed [])),
                        (2, LanguageChange (js ''Python'')),
                        (3, Settles 2 (RespOk \<lparr>total_count = Some 2, items = Some [sampleRepo 20, sampleRepo 21]\<rparr>)),
                        (4, Settles 1 (RespOk \<lparr>total_count = Some 1, items = Some [sampleRepo 10]\<rparr>))]
                    (constructor [] []))
        (projr (getCacheKey (js ''language:Rust stars:>10'')))
       = Some \<lparr>data = \<lparr>total_count = Some 1, items = Some [sampleRepo 10]\<rparr>, timestamp = 4\<rparr>"
  by (simp add: eval_defs)

end
